theory Spec2Isabelle
  imports Complex_Main
begin

section \<open>JavaScript values used by the metric functions\<close>

text \<open>
  For the threshold tests and the table extraction a JavaScript number is modelled as
  an exact rational or the value NaN.  The regression, whose branch depends on a
  rounded sum, has a model of binary64 arithmetic of its own below.  A value that may be
  \<open>null\<close> or \<open>undefined\<close> is an \<open>option\<close>: the sources test both at
  once (\<open>x == null\<close>, \<open>!x\<close>).
\<close>

datatype number = NaN | Fin rat

subsection \<open>dataHelpers.js: getSESCategory\<close>

text \<open>
  \<^verbatim>\<open>
  export function getSESCategory(povertyRate) {
    if (povertyRate == null || isNaN(povertyRate)) return 'Unknown';
    if (povertyRate >= 30) return 'Low';
    if (povertyRate >= 15) return 'Middle';
    return 'High';
  }
  \<close>
\<close>

definition getSESCategory :: "number option \<Rightarrow> string" where
  "getSESCategory povertyRate =
     (case povertyRate of
        None \<Rightarrow> ''Unknown''
      | Some NaN \<Rightarrow> ''Unknown''
      | Some (Fin r) \<Rightarrow>
          if r \<ge> 30 then ''Low''
          else if r \<ge> 15 then ''Middle''
          else ''High'')"

text \<open>The order of the three categories, lowest first; any other label ranks with Unknown.\<close>

definition sesRank :: "string \<Rightarrow> nat" where
  "sesRank c =
     (if c = ''Low'' then 1 else if c = ''Middle'' then 2 else if c = ''High'' then 3 else 0)"

subsection \<open>dataOutcomes.js: toLiteracyScore and levelFromScore\<close>

text \<open>
  \<^verbatim>\<open>
  function toLiteracyScore(litP1Percent) {
    if (litP1Percent == null || isNaN(litP1Percent)) return null;
    return 320 - (Number(litP1Percent) * 2);
  }
  function levelFromScore(score) {
    if (score == null || isNaN(score)) return 'Unknown';
    if (score < 200) return 'Below Basic';
    if (score < 240) return 'Basic';
    if (score < 280) return 'Proficient';
    return 'Advanced';
  }
  \<close>
\<close>

definition toLiteracyScore :: "number option \<Rightarrow> number option" where
  "toLiteracyScore litP1Percent =
     (case litP1Percent of
        None \<Rightarrow> None
      | Some NaN \<Rightarrow> None
      | Some (Fin p) \<Rightarrow> Some (Fin (320 - p * 2)))"

definition levelFromScore :: "number option \<Rightarrow> string" where
  "levelFromScore score =
     (case score of
        None \<Rightarrow> ''Unknown''
      | Some NaN \<Rightarrow> ''Unknown''
      | Some (Fin s) \<Rightarrow>
          if s < 200 then ''Below Basic''
          else if s < 240 then ''Basic''
          else if s < 280 then ''Proficient''
          else ''Advanced'')"

text \<open>
  The specification's two operations, in its own words: the affine transform
  \<open>scoreMax - percentBelowThreshold * slopeConstant\<close>, and bucketing over an ordered
  list of (upper bound, label) pairs that returns the first label whose upper bound
  exceeds the value and the final label when none does.
\<close>

definition toScore_spec :: "rat \<Rightarrow> rat \<Rightarrow> rat \<Rightarrow> rat" where
  "toScore_spec scoreMax slopeConstant percentBelowThreshold =
     scoreMax - percentBelowThreshold * slopeConstant"

definition bucket_spec :: "(rat \<times> string) list \<Rightarrow> string \<Rightarrow> rat \<Rightarrow> string" where
  "bucket_spec thresholds final v =
     (case find (\<lambda>(bound, label). v < bound) thresholds of
        Some (bound, label) \<Rightarrow> label
      | None \<Rightarrow> final)"

definition naepLevels :: "(rat \<times> string) list" where
  "naepLevels = [(200, ''Below Basic''), (240, ''Basic''), (280, ''Proficient'')]"

subsection \<open>Binary64 arithmetic\<close>

text \<open>
  The regression divides or not according to whether a computed sum is exactly zero, so
  its arithmetic is modelled as JavaScript performs it: every operation returns the
  binary64 value nearest to the exact result (ties to even).  A finite value is the
  rational it denotes; the other values are the two infinities and NaN.  The sign of a
  zero is not modelled: it can be observed only by dividing by that zero, and a division
  by zero is taken as a division by +0.
\<close>

text \<open>\<open>ilog2 n\<close> is the position of the leading bit of \<open>n \<ge> 1\<close>.\<close>

fun ilog2 :: "nat \<Rightarrow> nat" where
  "ilog2 n = (if n < 2 then 0 else Suc (ilog2 (n div 2)))"

text \<open>The binary exponent \<open>e\<close> of a positive rational: \<open>2^e \<le> a < 2^(e+1)\<close>.\<close>

definition exponentOf :: "rat \<Rightarrow> int" where
  "exponentOf a =
     (if 1 \<le> a then int (ilog2 (nat \<lfloor>a\<rfloor>))
      else (let t = int (ilog2 (nat \<lfloor>1 / a\<rfloor>))
            in if 1 / a = 2 powi t then - t else - t - 1))"

text \<open>Rounding to the nearest integer, a tie going to the even neighbour.\<close>

definition roundEven :: "rat \<Rightarrow> int" where
  "roundEven m =
     (let f = \<lfloor>m\<rfloor>; r = m - of_int f
      in if r < 1 / 2 then f
         else if 1 / 2 < r then f + 1
         else if even f then f else f + 1)"

text \<open>
  The nearest value with a 53-bit significand; below \<open>2^-1022\<close> the spacing stays at
  \<open>2^-1074\<close> (gradual underflow).  The range check is made by \<open>toDouble\<close>.
\<close>

definition fl :: "rat \<Rightarrow> rat" where
  "fl x =
     (if x = 0 then 0
      else (let q = max (exponentOf \<bar>x\<bar>) (- 1022) - 52
            in of_int (roundEven (x / 2 powi q)) * 2 powi q))"

datatype double = NotANumber | PlusInfinity | MinusInfinity | Double rat

text \<open>The result of an operation whose exact value is \<open>x\<close>: rounded, or an infinity on overflow.\<close>

definition toDouble :: "rat \<Rightarrow> double" where
  "toDouble x =
     (let r = fl x
      in if 2 ^ 1024 \<le> r then PlusInfinity
         else if r \<le> - (2 ^ 1024) then MinusInfinity
         else Double r)"

fun fneg :: "double \<Rightarrow> double" where
  "fneg NotANumber = NotANumber"
| "fneg PlusInfinity = MinusInfinity"
| "fneg MinusInfinity = PlusInfinity"
| "fneg (Double x) = Double (- x)"

fun fadd :: "double \<Rightarrow> double \<Rightarrow> double" where
  "fadd (Double x) (Double y) = toDouble (x + y)"
| "fadd NotANumber b = NotANumber"
| "fadd a NotANumber = NotANumber"
| "fadd PlusInfinity MinusInfinity = NotANumber"
| "fadd MinusInfinity PlusInfinity = NotANumber"
| "fadd PlusInfinity b = PlusInfinity"
| "fadd a PlusInfinity = PlusInfinity"
| "fadd MinusInfinity b = MinusInfinity"
| "fadd a MinusInfinity = MinusInfinity"

definition fsub :: "double \<Rightarrow> double \<Rightarrow> double" where
  "fsub a b = fadd a (fneg b)"

text \<open>An infinity times a finite value: NaN for zero, otherwise the product of the signs.\<close>

definition timesInfinity :: "bool \<Rightarrow> rat \<Rightarrow> double" where
  "timesInfinity positive y =
     (if y = 0 then NotANumber
      else if (0 < y) = positive then PlusInfinity else MinusInfinity)"

fun fmul :: "double \<Rightarrow> double \<Rightarrow> double" where
  "fmul (Double x) (Double y) = toDouble (x * y)"
| "fmul NotANumber b = NotANumber"
| "fmul a NotANumber = NotANumber"
| "fmul PlusInfinity (Double y) = timesInfinity True y"
| "fmul MinusInfinity (Double y) = timesInfinity False y"
| "fmul (Double x) PlusInfinity = timesInfinity True x"
| "fmul (Double x) MinusInfinity = timesInfinity False x"
| "fmul PlusInfinity PlusInfinity = PlusInfinity"
| "fmul PlusInfinity MinusInfinity = MinusInfinity"
| "fmul MinusInfinity PlusInfinity = MinusInfinity"
| "fmul MinusInfinity MinusInfinity = PlusInfinity"

fun fdiv :: "double \<Rightarrow> double \<Rightarrow> double" where
  "fdiv (Double x) (Double y) =
     (if y = 0
      then (if x = 0 then NotANumber else if 0 < x then PlusInfinity else MinusInfinity)
      else toDouble (x / y))"
| "fdiv NotANumber b = NotANumber"
| "fdiv a NotANumber = NotANumber"
| "fdiv (Double x) b = Double 0"
| "fdiv PlusInfinity (Double y) = (if 0 \<le> y then PlusInfinity else MinusInfinity)"
| "fdiv MinusInfinity (Double y) = (if 0 \<le> y then MinusInfinity else PlusInfinity)"
| "fdiv a b = NotANumber"

text \<open>\<open>Number.isFinite\<close>: neither NaN nor an infinity.\<close>

fun isFinite :: "double \<Rightarrow> bool" where
  "isFinite (Double x) = True"
| "isFinite a = False"

subsection \<open>visualization5_integrated.js: calculateLinearRegression\<close>

text \<open>
  \<^verbatim>\<open>
  function calculateLinearRegression(data) {
    const n = data.length;
    if (n < 2) return null;
    const xMean = d3.mean(data, d => d.spending);
    const yMean = d3.mean(data, d => d.score);
    let num = 0;
    let den = 0;
    data.forEach(d => {
      num += (d.spending - xMean) * (d.score - yMean);
      den += (d.spending - xMean) ** 2;
    });
    const slope = den !== 0 ? num / den : 0;
    const intercept = yMean - slope * xMean;
    return { slope, intercept };
  }
  \<close>
  A data point is the pair (spending, score).  The caller keeps only points whose two
  values are truthy and not NaN; the model takes them to be finite.  A point is a pair
  of rationals, and the statements below hold for all of them, the finite binary64
  values among them.
\<close>

text \<open>
  \<open>d3.mean\<close> belongs to the d3 library: it adds the values one by one, starting from 0,
  and divides by their number; on no values it returns \<open>undefined\<close>, which arithmetic
  turns into NaN.  The data values themselves are finite numbers.
\<close>

definition d3mean :: "rat list \<Rightarrow> double" where
  "d3mean xs =
     (if xs = [] then NotANumber
      else fdiv (foldl (\<lambda>sum x. fadd sum (Double x)) (Double 0) xs)
             (Double (of_nat (length xs))))"

text \<open>
  The two running sums of the \<open>forEach\<close> loop.  The square (\<open>** 2\<close> here,
  \<open>Math.pow(., 2)\<close> in visualization4.js) is modelled as the correctly rounded square,
  that is the rounded product of the difference with itself.
\<close>

definition accumulate :: "double \<Rightarrow> double \<Rightarrow> (rat \<times> rat) list \<Rightarrow> double \<times> double" where
  "accumulate xMean yMean data =
     foldl (\<lambda>(num, den) (x, y).
              (fadd num (fmul (fsub (Double x) xMean) (fsub (Double y) yMean)),
               fadd den (fmul (fsub (Double x) xMean) (fsub (Double x) xMean))))
       (Double 0, Double 0) data"

record regression =
  slope :: double
  intercept :: double

definition calculateLinearRegression :: "(rat \<times> rat) list \<Rightarrow> regression option" where
  "calculateLinearRegression data =
     (let n = length data in
      if n < 2 then None
      else
        let xMean = d3mean (map fst data);
            yMean = d3mean (map snd data);
            (num, den) = accumulate xMean yMean data;
            slope = (if den \<noteq> Double 0 then fdiv num den else Double 0);
            intercept = fsub yMean (fmul slope xMean)
        in Some \<lparr>slope = slope, intercept = intercept\<rparr>)"

text \<open>
  The trend line of visualization4.js (renderPredictionScatter) computes the same sums
  inline, on \<open>literacyScore\<close> and \<open>prediction\<close>, and divides without a guard:
  \<^verbatim>\<open>
  const xMean = d3.mean(stateScores, d => d.literacyScore);
  const yMean = d3.mean(stateScores, d => d.prediction);
  let numerator = 0;
  let denominator = 0;
  stateScores.forEach(d => {
    numerator += (d.literacyScore - xMean) * (d.prediction - yMean);
    denominator += Math.pow(d.literacyScore - xMean, 2);
  });
  const slope = numerator / denominator;
  const intercept = yMean - slope * xMean;
  \<close>
\<close>

definition trendLine :: "(rat \<times> rat) list \<Rightarrow> double \<times> double" where
  "trendLine stateScores =
     (let xMean = d3mean (map fst stateScores);
          yMean = d3mean (map snd stateScores);
          (numerator, denominator) = accumulate xMean yMean stateScores;
          slope = fdiv numerator denominator;
          intercept = fsub yMean (fmul slope xMean)
      in (slope, intercept))"

text \<open>The binary64 value of the literal \<open>0.1\<close>.\<close>

definition tenth :: rat where
  "tenth = 3602879701896397 / 36028797018963968"

definition tenthPoints :: "(rat \<times> rat) list" where
  "tenthPoints = [(tenth, 1), (tenth, 2), (tenth, 4)]"

text \<open>
  The specification's least-squares formulas, in its own words, with every operation
  rounded as binary64 does: the sums \<open>\<Sigma>((x-x\<^bsub>mean\<^esub>)(y-y\<^bsub>mean\<^esub>))\<close> and
  \<open>\<Sigma>((x-x\<^bsub>mean\<^esub>)\<^sup>2)\<close>, the slope as their quotient and the intercept as
  \<open>y\<^bsub>mean\<^esub> - slope \<sqdot> x\<^bsub>mean\<^esub>\<close>.
\<close>

definition sxy_spec :: "(rat \<times> rat) list \<Rightarrow> double" where
  "sxy_spec pts =
     foldl (\<lambda>sum (x, y).
              fadd sum (fmul (fsub (Double x) (d3mean (map fst pts)))
                             (fsub (Double y) (d3mean (map snd pts)))))
       (Double 0) pts"

definition sxx_spec :: "(rat \<times> rat) list \<Rightarrow> double" where
  "sxx_spec pts =
     foldl (\<lambda>sum (x, y).
              fadd sum (fmul (fsub (Double x) (d3mean (map fst pts)))
                             (fsub (Double x) (d3mean (map fst pts)))))
       (Double 0) pts"

definition slope_spec :: "(rat \<times> rat) list \<Rightarrow> double" where
  "slope_spec pts = fdiv (sxy_spec pts) (sxx_spec pts)"

definition intercept_spec :: "(rat \<times> rat) list \<Rightarrow> double" where
  "intercept_spec pts =
     fsub (d3mean (map snd pts)) (fmul (slope_spec pts) (d3mean (map fst pts)))"

subsection \<open>visualization1.js: getStateScore\<close>

text \<open>
  \<^verbatim>\<open>
  async function getStateScore(state, grade, ses) {
    const data = await loadNAEPData();
    const gradeKey = `grade${grade}`;
    const gradeData = data[gradeKey];
    if (!gradeData || !gradeData.states || !gradeData.states[state]) {
      return null;
    }
    const years = gradeData.years.sort((a, b) => b - a);
    const latestYear = String(years[0]);
    const stateScores = gradeData.states[state];
    const score = stateScores[latestYear];
    if (!score) {
      return null;
    }
    const sesGap = 18;
    let adjustedScore = score;
    if (ses === 'Low') {
      adjustedScore = score - sesGap;
    } else if (ses === 'High') {
      adjustedScore = score + sesGap;
    }
    return adjustedScore;
  }
  \<close>
  \<open>data\<close> is the parsed naep_cleaned.json: per grade key a list of years and, per
  state code, the scores by year (the year as a string key).  JSON has no NaN, so a
  score is a number or absent.  The function is modelled from the point where the file
  has been loaded.
\<close>

record gradeData =
  years :: "nat list"
  states :: "(string \<rightharpoonup> (string \<rightharpoonup> rat)) option"

definition digitChar :: "nat \<Rightarrow> char" where
  "digitChar d = ''0123456789'' ! d"

fun decimal :: "nat \<Rightarrow> string" where
  "decimal n = (if n < 10 then [digitChar n] else decimal (n div 10) @ [digitChar (n mod 10)])"

text \<open>\<open>String(years[0])\<close> after the descending sort; \<open>String(undefined)\<close> when there is no year.\<close>

definition latestYearKey :: "nat list \<Rightarrow> string" where
  "latestYearKey ys =
     (case rev (sort ys) of [] \<Rightarrow> ''undefined'' | y # _ \<Rightarrow> decimal y)"

text \<open>The value of the variable \<open>score\<close>, when the function gets as far as reading it.\<close>

definition latestScore :: "(string \<rightharpoonup> gradeData) \<Rightarrow> string \<Rightarrow> nat \<Rightarrow> rat option" where
  "latestScore data state grade =
     (case data (''grade'' @ decimal grade) of
        None \<Rightarrow> None
      | Some gd \<Rightarrow>
          (case states gd of
             None \<Rightarrow> None
           | Some sts \<Rightarrow>
               (case sts state of
                  None \<Rightarrow> None
                | Some stateScores \<Rightarrow> stateScores (latestYearKey (years gd)))))"

definition getStateScore :: "(string \<rightharpoonup> gradeData) \<Rightarrow> string \<Rightarrow> nat \<Rightarrow> string \<Rightarrow> rat option" where
  "getStateScore data state grade ses =
     (case latestScore data state grade of
        None \<Rightarrow> None
      | Some score \<Rightarrow>
          if score = 0 then None
          else
            let sesGap = 18 in
            if ses = ''Low'' then Some (score - sesGap)
            else if ses = ''High'' then Some (score + sesGap)
            else Some score)"

section \<open>Spreadsheet cells and JavaScript string operations\<close>

text \<open>
  \<open>XLSX.utils.sheet_to_json(ws, { header: 1, defval: null })\<close> returns an array of
  rows, each an array of cells: numbers, strings, booleans or null.  Reading past the end
  of a row gives \<open>undefined\<close>, which every test in the sources treats like null.
  Strings are modelled as ASCII byte strings: whitespace and letter case are the ASCII
  ones.
\<close>

datatype cell = CNull | CNum number | CStr string | CBool bool

type_synonym row = "cell list"
type_synonym grid = "row list"

definition cellAt :: "row \<Rightarrow> nat \<Rightarrow> cell" where
  "cellAt r j = (if j < length r then r ! j else CNull)"

text \<open>\<open>rows[i]\<close>; an index past the end gives the empty row, which each loop skips as it does \<open>undefined\<close>.\<close>

definition rowAt :: "grid \<Rightarrow> nat \<Rightarrow> row" where
  "rowAt rows i = (if i < length rows then rows ! i else [])"

definition isSpace :: "char \<Rightarrow> bool" where
  "isSpace c \<longleftrightarrow> c \<in> set [CHR '' '', CHR 0x09, CHR 0x0A, CHR 0x0B, CHR 0x0C, CHR 0x0D]"

definition isDigit :: "char \<Rightarrow> bool" where
  "isDigit c \<longleftrightarrow> c \<in> set ''0123456789''"

definition trim :: "string \<Rightarrow> string" where
  "trim s = rev (dropWhile isSpace (rev (dropWhile isSpace s)))"

definition toLowerChar :: "char \<Rightarrow> char" where
  "toLowerChar c =
     (case map_of (zip ''ABCDEFGHIJKLMNOPQRSTUVWXYZ'' ''abcdefghijklmnopqrstuvwxyz'') c of
        Some l \<Rightarrow> l
      | None \<Rightarrow> c)"

definition toLowerCase :: "string \<Rightarrow> string" where
  "toLowerCase s = map toLowerChar s"

fun startsWith :: "string \<Rightarrow> string \<Rightarrow> bool" where
  "startsWith s [] = True"
| "startsWith [] (p # ps) = False"
| "startsWith (c # cs) (p # ps) = (c = p \<and> startsWith cs ps)"

text \<open>\<open>s.includes(sub)\<close>: \<open>sub\<close> occurs in \<open>s\<close> as a contiguous substring.\<close>

fun str_includes :: "string \<Rightarrow> string \<Rightarrow> bool" where
  "str_includes [] sub = (sub = [])"
| "str_includes (c # cs) sub = (startsWith (c # cs) sub \<or> str_includes cs sub)"

text \<open>\<open>s.replace(/\s+/g, ' ')\<close>: every run of whitespace becomes one space.  The flag
  says whether the previous character was whitespace.\<close>

fun collapseFrom :: "bool \<Rightarrow> string \<Rightarrow> string" where
  "collapseFrom prev [] = []"
| "collapseFrom prev (c # cs) =
     (if isSpace c then (if prev then collapseFrom True cs else CHR '' '' # collapseFrom True cs)
      else c # collapseFrom False cs)"

definition collapseSpaces :: "string \<Rightarrow> string" where
  "collapseSpaces s = collapseFrom False s"

text \<open>
  \<open>String(n)\<close> for a number.  A non-negative integer below 10^21 prints as its decimal
  digits, which is exact here.  From 10^21 on JavaScript prints the exponent form (a
  digit, a point and further digits if any, \<open>e+\<close> and the exponent); a number with a
  fraction prints its integer part, a point and fraction digits.  JavaScript prints the
  shortest digits that read back as the same binary64 value and switches to the exponent
  form below 10^-6; the model prints up to 17 digits.  The sources ask of a text whether
  it is a four-digit year, starts with a four-digit year, contains a word, names a state
  or is empty; each of these is decided by the sign, the integer part below 10^21 and
  the position of the first point or \<open>e\<close>, which the two renderings share.
\<close>

fun fractionDigits :: "nat \<Rightarrow> rat \<Rightarrow> string" where
  "fractionDigits 0 r = []"
| "fractionDigits (Suc k) r =
     (if r = 0 then []
      else digitChar (nat \<lfloor>r * 10\<rfloor>) # fractionDigits k (r * 10 - of_int \<lfloor>r * 10\<rfloor>))"

definition exponentText :: "nat \<Rightarrow> string" where
  "exponentText whole =
     (let ds = decimal whole;
          further = rev (dropWhile (\<lambda>c. c = CHR ''0'') (rev (take 16 (tl ds))))
      in hd ds # (if further = [] then [] else ''.'' @ further) @
         ''e+'' @ decimal (length ds - 1))"

definition numberText :: "rat \<Rightarrow> string" where
  "numberText q =
     (let whole = nat \<lfloor>\<bar>q\<bar>\<rfloor>; rest = \<bar>q\<bar> - of_nat whole
      in (if q < 0 then ''-'' else []) @
         (if 10 ^ 21 \<le> whole then exponentText whole
          else decimal whole @ (if rest = 0 then [] else ''.'' @ fractionDigits 17 rest)))"

definition jsString :: "cell \<Rightarrow> string" where
  "jsString c =
     (case c of
        CNull \<Rightarrow> ''null''
      | CNum NaN \<Rightarrow> ''NaN''
      | CNum (Fin q) \<Rightarrow> numberText q
      | CStr s \<Rightarrow> s
      | CBool b \<Rightarrow> if b then ''true'' else ''false'')"

text \<open>JavaScript truthiness: null, 0, NaN, the empty string and false are falsy.\<close>

definition truthy :: "cell \<Rightarrow> bool" where
  "truthy c =
     (case c of
        CNull \<Rightarrow> False
      | CNum NaN \<Rightarrow> False
      | CNum (Fin q) \<Rightarrow> q \<noteq> 0
      | CStr s \<Rightarrow> s \<noteq> []
      | CBool b \<Rightarrow> b)"

text \<open>\<open>String(cell || '').trim()\<close>\<close>

definition cellText :: "cell \<Rightarrow> string" where
  "cellText c = trim (if truthy c then jsString c else [])"

text \<open>\<open>/^(199[2-9]|200[0-9]|201[0-9]|202[0-2])$/.test(s)\<close>\<close>

definition yearPattern :: "string \<Rightarrow> bool" where
  "yearPattern s \<longleftrightarrow>
     length s = 4 \<and>
     (take 3 s = ''199'' \<and> s ! 3 \<in> set ''23456789'' \<or>
      take 3 s = ''200'' \<and> isDigit (s ! 3) \<or>
      take 3 s = ''201'' \<and> isDigit (s ! 3) \<or>
      take 3 s = ''202'' \<and> s ! 3 \<in> set ''012'')"

text \<open>
  \<open>s.match(/^(\d+\.?\d*)/)\<close>: the matched text, when there is a match.  The pattern is
  greedy and nothing follows it, so the match is the longest run of leading digits,
  then a point if one follows, then the longest run of digits after it.
\<close>

definition scoreMatch :: "string \<Rightarrow> string option" where
  "scoreMatch s =
     (let whole = takeWhile isDigit s; rest = dropWhile isDigit s
      in if whole = [] then None
         else (case rest of
                 [] \<Rightarrow> Some whole
               | c # cs \<Rightarrow>
                   if c = CHR ''.'' then Some (whole @ ''.'' @ takeWhile isDigit cs)
                   else Some whole))"

definition digitValue :: "char \<Rightarrow> nat" where
  "digitValue c =
     (case map_of (zip ''0123456789'' [0, 1, 2, 3, 4, 5, 6, 7, 8, 9]) c of
        Some d \<Rightarrow> d
      | None \<Rightarrow> 0)"

text \<open>\<open>parseInt\<close> on a string of decimal digits.\<close>

definition parseInt :: "string \<Rightarrow> nat" where
  "parseInt s = foldl (\<lambda>a c. 10 * a + digitValue c) 0 (takeWhile isDigit s)"

text \<open>\<open>parseFloat\<close> on a text matched by the score pattern, as an exact rational.\<close>

definition parseFloat :: "string \<Rightarrow> rat" where
  "parseFloat m =
     (let whole = takeWhile isDigit m;
          fraction = takeWhile isDigit (drop 1 (dropWhile isDigit m))
      in of_nat (parseInt whole) + of_nat (parseInt fraction) / 10 ^ length fraction)"

section \<open>dataHelpers.js: loadAllNAEPData and fetchNAEP\<close>

subsection \<open>The state-name table\<close>

text \<open>
  The object literal \<open>stateNameToCode\<close> of dataHelpers.js is \<open>uspsNames\<close> followed by
  \<open>'United States': 'National'\<close>; the table of scripts/clean_naep_data.js is
  \<open>uspsNames\<close> alone.  A lookup \<open>stateNameToCode[name]\<close> on an object literal also
  finds the members inherited from \<open>Object.prototype\<close>, all of them truthy; the Map keys
  are therefore either a code from the table or such an inherited member.
\<close>

definition uspsNames :: "(string \<times> string) list" where
  "uspsNames =
     [(''Alabama'', ''AL''), (''Alaska'', ''AK''), (''Arizona'', ''AZ''), (''Arkansas'', ''AR''),
      (''California'', ''CA''), (''Colorado'', ''CO''), (''Connecticut'', ''CT''),
      (''Delaware'', ''DE''), (''District of Columbia'', ''DC''), (''Florida'', ''FL''),
      (''Georgia'', ''GA''), (''Hawaii'', ''HI''), (''Idaho'', ''ID''), (''Illinois'', ''IL''),
      (''Indiana'', ''IN''), (''Iowa'', ''IA''), (''Kansas'', ''KS''), (''Kentucky'', ''KY''),
      (''Louisiana'', ''LA''), (''Maine'', ''ME''), (''Maryland'', ''MD''),
      (''Massachusetts'', ''MA''), (''Michigan'', ''MI''), (''Minnesota'', ''MN''),
      (''Mississippi'', ''MS''), (''Missouri'', ''MO''), (''Montana'', ''MT''),
      (''Nebraska'', ''NE''), (''Nevada'', ''NV''), (''New Hampshire'', ''NH''),
      (''New Jersey'', ''NJ''), (''New Mexico'', ''NM''), (''New York'', ''NY''),
      (''North Carolina'', ''NC''), (''North Dakota'', ''ND''), (''Ohio'', ''OH''),
      (''Oklahoma'', ''OK''), (''Oregon'', ''OR''), (''Pennsylvania'', ''PA''),
      (''Rhode Island'', ''RI''), (''South Carolina'', ''SC''), (''South Dakota'', ''SD''),
      (''Tennessee'', ''TN''), (''Texas'', ''TX''), (''Utah'', ''UT''), (''Vermont'', ''VT''),
      (''Virginia'', ''VA''), (''Washington'', ''WA''), (''West Virginia'', ''WV''),
      (''Wisconsin'', ''WI''), (''Wyoming'', ''WY'')]"

definition objectPrototypeNames :: "string list" where
  "objectPrototypeNames =
     [''constructor'', ''hasOwnProperty'', ''isPrototypeOf'', ''propertyIsEnumerable'',
      ''toLocaleString'', ''toString'', ''valueOf'', ''__proto__'', ''__defineGetter__'',
      ''__defineSetter__'', ''__lookupGetter__'', ''__lookupSetter__'']"

datatype key = Code string | Inherited string

definition lookupName :: "(string \<times> string) list \<Rightarrow> string \<Rightarrow> key option" where
  "lookupName table name =
     (case map_of table name of
        Some code \<Rightarrow> Some (Code code)
      | None \<Rightarrow> if name \<in> set objectPrototypeNames then Some (Inherited name) else None)"

definition stateNameToCode :: "string \<Rightarrow> key option" where
  "stateNameToCode name = lookupName (uspsNames @ [(''United States'', ''National'')]) name"

subsection \<open>Locating the header row and the first data row\<close>

text \<open>
  \<^verbatim>\<open>
  let dataStartRow = -1;
  let headerRowIndex = -1;
  // Strategy 1: Look for "State or jurisdiction" header
  for (let i = 0; i < Math.min(15, rows.length); i++) {
    const row = rows[i];
    if (!row || !Array.isArray(row)) continue;
    const firstCell = String(row[0] || '').trim().toLowerCase();
    if (firstCell.includes('state') || firstCell.includes('jurisdiction')) {
      dataStartRow = i + 1;
      headerRowIndex = i;
      break;
    }
  }
  // Strategy 2: Look for row with year numbers in header
  if (headerRowIndex === -1) {
    for (let i = 0; i < Math.min(15, rows.length); i++) {
      const row = rows[i];
      if (!row || !Array.isArray(row)) continue;
      let yearCount = 0;
      for (let j = 1; j < Math.min(row.length, 15); j++) {
        const cell = String(row[j] || '').trim();
        if (/^(199[2-9]|200[0-9]|201[0-9]|202[0-2])$/.test(cell)) {
          yearCount++;
        }
      }
      if (yearCount >= 3) {
        headerRowIndex = i;
        dataStartRow = i + 1;
        break;
      }
    }
  }
  // Strategy 3: Look for first state name, then find header above it
  if (dataStartRow === -1) {
    for (let i = 0; i < Math.min(30, rows.length); i++) {
      const row = rows[i];
      if (!row || !Array.isArray(row)) continue;
      const firstCell = String(row[0] || '').trim();
      if (stateNameToCode[firstCell] || firstCell === 'United States') {
        for (let j = Math.max(0, i - 5); j < i; j++) {
          const headerRow = rows[j];
          if (headerRow && Array.isArray(headerRow)) {
            const hasYears = headerRow.some(cell => {
              const val = String(cell || '').trim();
              return /^(199[2-9]|200[0-9]|201[0-9]|202[0-2])$/.test(val);
            });
            if (hasYears) {
              headerRowIndex = j;
              dataStartRow = i;
              break;
            }
          }
        }
        if (headerRowIndex !== -1) break;
      }
    }
  }
  \<close>
  The two variables are the state the three strategies pass along.  A loop with
  \<open>break\<close> is a recursion over the indices still to visit that stops at the first hit.
\<close>

record locator =
  dataStartRow :: int
  headerRowIndex :: int

definition notFound :: locator where
  "notFound = \<lparr>dataStartRow = - 1, headerRowIndex = - 1\<rparr>"

fun strategy1_loop :: "grid \<Rightarrow> nat list \<Rightarrow> locator \<Rightarrow> locator" where
  "strategy1_loop rows [] loc = loc"
| "strategy1_loop rows (i # rest) loc =
     (let firstCell = toLowerCase (cellText (cellAt (rowAt rows i) 0))
      in if str_includes firstCell ''state'' \<or> str_includes firstCell ''jurisdiction''
         then loc\<lparr>dataStartRow := int i + 1, headerRowIndex := int i\<rparr>
         else strategy1_loop rows rest loc)"

definition strategy1 :: "grid \<Rightarrow> locator \<Rightarrow> locator" where
  "strategy1 rows loc = strategy1_loop rows [0..<min 15 (length rows)] loc"

definition yearCount :: "row \<Rightarrow> nat" where
  "yearCount r =
     length (filter (\<lambda>j. yearPattern (cellText (cellAt r j))) [1..<min (length r) 15])"

fun strategy2_loop :: "grid \<Rightarrow> nat list \<Rightarrow> locator \<Rightarrow> locator" where
  "strategy2_loop rows [] loc = loc"
| "strategy2_loop rows (i # rest) loc =
     (if yearCount (rowAt rows i) \<ge> 3
      then loc\<lparr>headerRowIndex := int i, dataStartRow := int i + 1\<rparr>
      else strategy2_loop rows rest loc)"

definition strategy2_scan :: "grid \<Rightarrow> locator \<Rightarrow> locator" where
  "strategy2_scan rows loc = strategy2_loop rows [0..<min 15 (length rows)] loc"

definition strategy2 :: "grid \<Rightarrow> locator \<Rightarrow> locator" where
  "strategy2 rows loc = (if headerRowIndex loc = - 1 then strategy2_scan rows loc else loc)"

definition hasYears :: "row \<Rightarrow> bool" where
  "hasYears headerRow = list_ex (\<lambda>c. yearPattern (cellText c)) headerRow"

text \<open>The inner loop of strategy 3 for the state row \<open>i\<close>, over the rows \<open>j\<close> still to visit.\<close>

fun backScan :: "grid \<Rightarrow> nat \<Rightarrow> nat list \<Rightarrow> locator \<Rightarrow> locator" where
  "backScan rows i [] loc = loc"
| "backScan rows i (j # rest) loc =
     (if hasYears (rowAt rows j)
      then loc\<lparr>headerRowIndex := int j, dataStartRow := int i\<rparr>
      else backScan rows i rest loc)"

text \<open>On natural numbers \<open>i - 5\<close> stops at 0, as \<open>Math.max(0, i - 5)\<close> does.\<close>

fun strategy3_loop :: "grid \<Rightarrow> nat list \<Rightarrow> locator \<Rightarrow> locator" where
  "strategy3_loop rows [] loc = loc"
| "strategy3_loop rows (i # rest) loc =
     (let firstCell = cellText (cellAt (rowAt rows i) 0)
      in if stateNameToCode firstCell \<noteq> None \<or> firstCell = ''United States''
         then (let loc' = backScan rows i [i - 5..<i] loc
               in if headerRowIndex loc' \<noteq> - 1 then loc'
                  else strategy3_loop rows rest loc')
         else strategy3_loop rows rest loc)"

definition strategy3_scan :: "grid \<Rightarrow> locator \<Rightarrow> locator" where
  "strategy3_scan rows loc = strategy3_loop rows [0..<min 30 (length rows)] loc"

definition strategy3 :: "grid \<Rightarrow> locator \<Rightarrow> locator" where
  "strategy3 rows loc = (if dataStartRow loc = - 1 then strategy3_scan rows loc else loc)"

definition findHeader :: "grid \<Rightarrow> locator" where
  "findHeader rows = strategy3 rows (strategy2 rows (strategy1 rows notFound))"

text \<open>A strategy has succeeded when it has set the header row and the data start row.\<close>

definition located :: "locator \<Rightarrow> bool" where
  "located loc \<longleftrightarrow> headerRowIndex loc \<noteq> - 1 \<and> dataStartRow loc \<noteq> - 1"

subsection \<open>Year columns and the row loop\<close>

text \<open>
  \<^verbatim>\<open>
  if (dataStartRow === -1 || headerRowIndex === -1) {
    throw new Error('Could not parse Excel file structure');
  }
  const headerRow = rows[headerRowIndex];
  const yearColumns = [];
  for (let i = 1; i < headerRow.length; i++) {
    const cell = String(headerRow[i] || '').trim();
    const yearMatch = cell.match(/^(199[2-9]|200[0-9]|201[0-9]|202[0-2])$/);
    if (yearMatch) {
      yearColumns.push({ index: i, year: yearMatch[1] });
    }
  }
  if (yearColumns.length === 0) {
    throw new Error('Could not find year columns in Excel file');
  }
  yearColumns.sort((a, b) => parseInt(b.year) - parseInt(a.year));
  const targetYearCol = yearColumns[0];
  const stateData = new Map();
  let nationalAvg = null;
  const sesGap = 18; // Typical NAEP reading score gap
  for (let i = dataStartRow; i < rows.length; i++) {
    const row = rows[i];
    if (!row || !Array.isArray(row)) continue;
    const firstCell = String(row[0] || '').trim();
    if (firstCell === 'United States' || firstCell.toLowerCase().includes('united states')) {
      const natScoreCell = row[targetYearCol.index];
      if (typeof natScoreCell === 'number') {
        nationalAvg = natScoreCell;
      } else if (typeof natScoreCell === 'string') {
        const natScoreMatch = natScoreCell.match(/^(\d+\.?\d*)/);
        if (natScoreMatch) {
          nationalAvg = parseFloat(natScoreMatch[1]);
        }
      }
      continue;
    }
    const stateCode = stateNameToCode[firstCell];
    if (stateCode) {
      const scoreCell = row[targetYearCol.index];
      let score = null;
      if (typeof scoreCell === 'number') {
        score = scoreCell;
      } else if (typeof scoreCell === 'string') {
        const scoreMatch = scoreCell.match(/^(\d+\.?\d*)/);
        score = scoreMatch ? parseFloat(scoreMatch[1]) : null;
      }
      if (score !== null && !isNaN(score)) {
        stateData.set(stateCode, {
          Low: score - sesGap,
          Middle: score,
          High: score + sesGap,
          NationalAverage: nationalAvg || score
        });
      }
    }
  }
  const result = { stateData, nationalAvg };
  naepDataCache.set(grade, result);
  return result;
  \<close>
\<close>

datatype error = FetchError | StructureError | NoYearColumnsError | TypeError

record yearColumn =
  index :: nat
  year :: string

definition findYearColumns :: "row \<Rightarrow> yearColumn list" where
  "findYearColumns headerRow =
     map (\<lambda>i. \<lparr>index = i, year = cellText (cellAt headerRow i)\<rparr>)
       (filter (\<lambda>i. yearPattern (cellText (cellAt headerRow i))) [1..<length headerRow])"

text \<open>\<open>Array.prototype.sort\<close> is stable, and so is \<open>sort_key\<close>; the key is the negated year.\<close>

definition sortYearColumns :: "yearColumn list \<Rightarrow> yearColumn list" where
  "sortYearColumns cols = sort_key (\<lambda>c. - int (parseInt (year c))) cols"

record scores =
  Low :: "number option"
  Middle :: "number option"
  High :: "number option"
  NationalAverage :: "number option"

record naepResult =
  stateData :: "key \<rightharpoonup> scores"
  nationalAvg :: "number option"

definition sesGap :: rat where
  "sesGap = 18"

text \<open>The value of \<open>score\<close> after the two \<open>typeof\<close> branches; None is null.\<close>

definition cellScore :: "cell \<Rightarrow> number option" where
  "cellScore scoreCell =
     (case scoreCell of
        CNum n \<Rightarrow> Some n
      | CStr s \<Rightarrow> (case scoreMatch s of Some m \<Rightarrow> Some (Fin (parseFloat m)) | None \<Rightarrow> None)
      | _ \<Rightarrow> None)"

text \<open>The value of \<open>nationalAvg\<close> after an aggregate row: a cell that is neither a
  number nor a matching string leaves it as it was.\<close>

definition nationalScore :: "number option \<Rightarrow> cell \<Rightarrow> number option" where
  "nationalScore previous natScoreCell =
     (case natScoreCell of
        CNum n \<Rightarrow> Some n
      | CStr s \<Rightarrow> (case scoreMatch s of Some m \<Rightarrow> Some (Fin (parseFloat m)) | None \<Rightarrow> previous)
      | _ \<Rightarrow> previous)"

text \<open>\<open>nationalAvg || score\<close>: null, 0 and NaN are falsy.\<close>

definition orScore :: "number option \<Rightarrow> rat \<Rightarrow> number" where
  "orScore avg score =
     (case avg of
        Some (Fin a) \<Rightarrow> if a \<noteq> 0 then Fin a else Fin score
      | _ \<Rightarrow> Fin score)"

definition isAggregate :: "string \<Rightarrow> bool" where
  "isAggregate firstCell \<longleftrightarrow>
     firstCell = ''United States'' \<or> str_includes (toLowerCase firstCell) ''united states''"

definition processRow :: "nat \<Rightarrow> naepResult \<Rightarrow> row \<Rightarrow> naepResult" where
  "processRow col acc r =
     (let firstCell = cellText (cellAt r 0)
      in if isAggregate firstCell
         then acc\<lparr>nationalAvg := nationalScore (nationalAvg acc) (cellAt r col)\<rparr>
         else (case stateNameToCode firstCell of
                 None \<Rightarrow> acc
               | Some stateCode \<Rightarrow>
                   (case cellScore (cellAt r col) of
                      Some (Fin score) \<Rightarrow>
                        acc\<lparr>stateData := (stateData acc)(stateCode \<mapsto>
                              \<lparr>Low = Some (Fin (score - sesGap)),
                               Middle = Some (Fin score),
                               High = Some (Fin (score + sesGap)),
                               NationalAverage = Some (orScore (nationalAvg acc) score)\<rparr>)\<rparr>
                    | _ \<Rightarrow> acc)))"

text \<open>
  The part of loadAllNAEPData that runs once the sheet has been read.  Reading
  \<open>headerRow.length\<close> of a row that does not exist would raise a TypeError; that
  branch is kept and shown unreachable below.
\<close>

definition loadAllNAEPData_rows :: "grid \<Rightarrow> error + naepResult" where
  "loadAllNAEPData_rows rows =
     (let loc = findHeader rows
      in if dataStartRow loc = - 1 \<or> headerRowIndex loc = - 1 then Inl StructureError
         else if headerRowIndex loc < 0 \<or> int (length rows) \<le> headerRowIndex loc then Inl TypeError
         else
           (let headerRow = rows ! nat (headerRowIndex loc);
                yearColumns = findYearColumns headerRow
            in if yearColumns = [] then Inl NoYearColumnsError
               else
                 (let targetYearCol = hd (sortYearColumns yearColumns)
                  in Inr (foldl (processRow (index targetYearCol))
                            \<lparr>stateData = Map.empty, nationalAvg = None\<rparr>
                            (drop (nat (dataStartRow loc)) rows)))))"

subsection \<open>The module cache, localStorage and fetchNAEP\<close>

text \<open>
  \<^verbatim>\<open>
  function cacheData(key, data) {
    try { localStorage.setItem(key, JSON.stringify({ data, ts: Date.now() })); } catch (e) {}
  }
  function loadCachedData(key, maxAgeMinutes = 1440) {
    try {
      const item = JSON.parse(localStorage.getItem(key));
      if (!item) return null;
      const age = (Date.now() - item.ts) / 60000;
      return age < maxAgeMinutes ? item.data : null;
    } catch (e) { return null; }
  }
  const naepDataCache = new Map();
  async function loadAllNAEPData(grade = 4) {
    if (naepDataCache.has(grade)) {
      return naepDataCache.get(grade);
    }
    try {
      const filePath = grade === 4
        ? 'data/fourth_grade_naep.xlsx'
        : 'data/eighth_grade_naep.xlsx';
      if (typeof XLSX === 'undefined') { throw new Error(...); }
      const res = await fetch(filePath);
      if (!res.ok) { throw new Error(...); }
      ...
      const rows = XLSX.utils.sheet_to_json(ws, { header: 1, defval: null });
      ... (the extraction above) ...
    } catch (err) {
      console.error(..., err);
      throw err;
    }
  }
  export async function fetchNAEP(state, grade = 4, subject = 'READING') {
    const cacheKey = `naep_${state}_${grade}_${subject}`;
    const cached = loadCachedData(cacheKey);
    if (cached) {
      return cached;
    }
    try {
      const { stateData, nationalAvg } = await loadAllNAEPData(grade);
      const scores = stateData.get(state) || {
        Low: null, Middle: null, High: null, NationalAverage: nationalAvg
      };
      if (scores.Middle === null) { console.warn(...); }
      cacheData(cacheKey, scores);
      return scores;
    } catch (err) {
      console.error(..., err);
      return { Low: null, Middle: null, High: null, NationalAverage: null };
    }
  }
  \<close>
  The state is the module-level Map and localStorage; the clock and the reading of a
  workbook (fetch, XLSX.read, sheet_to_json: any of them may fail) are parameters.
  JSON.stringify writes NaN as null.
\<close>

record browser =
  naepDataCache :: "nat \<rightharpoonup> naepResult"
  localStorage :: "string \<rightharpoonup> (scores \<times> int)"

definition jsonNumber :: "number option \<Rightarrow> number option" where
  "jsonNumber v = (case v of Some (Fin q) \<Rightarrow> Some (Fin q) | _ \<Rightarrow> None)"

definition jsonScores :: "scores \<Rightarrow> scores" where
  "jsonScores sc =
     \<lparr>Low = jsonNumber (Low sc), Middle = jsonNumber (Middle sc),
      High = jsonNumber (High sc), NationalAverage = jsonNumber (NationalAverage sc)\<rparr>"

definition cacheData :: "int \<Rightarrow> (string \<rightharpoonup> (scores \<times> int)) \<Rightarrow> string \<Rightarrow> scores
    \<Rightarrow> (string \<rightharpoonup> (scores \<times> int))" where
  "cacheData now store k d = store(k \<mapsto> (jsonScores d, now))"

definition loadCachedData :: "int \<Rightarrow> (string \<rightharpoonup> (scores \<times> int)) \<Rightarrow> string \<Rightarrow> scores option" where
  "loadCachedData now store k =
     (case store k of
        None \<Rightarrow> None
      | Some (d, ts) \<Rightarrow> if (of_int (now - ts) :: rat) / 60000 < 1440 then Some d else None)"

definition loadAllNAEPData :: "(string \<Rightarrow> error + grid) \<Rightarrow> (nat \<rightharpoonup> naepResult) \<Rightarrow> nat
    \<Rightarrow> (error + naepResult) \<times> (nat \<rightharpoonup> naepResult)" where
  "loadAllNAEPData readSheet cache grade =
     (case cache grade of
        Some result \<Rightarrow> (Inr result, cache)
      | None \<Rightarrow>
          (let filePath = (if grade = 4 then ''data/fourth_grade_naep.xlsx''
                           else ''data/eighth_grade_naep.xlsx'')
           in case readSheet filePath of
                Inl err \<Rightarrow> (Inl err, cache)
              | Inr rows \<Rightarrow>
                  (case loadAllNAEPData_rows rows of
                     Inl err \<Rightarrow> (Inl err, cache)
                   | Inr result \<Rightarrow> (Inr result, cache(grade \<mapsto> result)))))"

definition nullScores :: scores where
  "nullScores = \<lparr>Low = None, Middle = None, High = None, NationalAverage = None\<rparr>"

definition fetchNAEP :: "(string \<Rightarrow> error + grid) \<Rightarrow> int \<Rightarrow> browser \<Rightarrow> string \<Rightarrow> nat \<Rightarrow> string
    \<Rightarrow> scores \<times> browser" where
  "fetchNAEP readSheet now b state grade subject =
     (let cacheKey = ''naep_'' @ state @ ''_'' @ decimal grade @ ''_'' @ subject
      in case loadCachedData now (localStorage b) cacheKey of
           Some cached \<Rightarrow> (cached, b)
         | None \<Rightarrow>
             (case loadAllNAEPData readSheet (naepDataCache b) grade of
                (Inl err, cache) \<Rightarrow> (nullScores, b\<lparr>naepDataCache := cache\<rparr>)
              | (Inr result, cache) \<Rightarrow>
                  (let found =
                         (case stateData result (Code state) of
                            Some sc \<Rightarrow> sc
                          | None \<Rightarrow>
                              \<lparr>Low = None, Middle = None, High = None,
                               NationalAverage = nationalAvg result\<rparr>)
                   in (found,
                       \<lparr>naepDataCache = cache,
                        localStorage = cacheData now (localStorage b) cacheKey found\<rparr>))))"

section \<open>scripts/clean_naep_data.js: parseNAEPFile\<close>

text \<open>
  \<^verbatim>\<open>
  let headerRowIdx = -1;
  let dataStartIdx = -1;
  const years = [];
  const yearColumns = new Map();
  for (let i = 0; i < Math.min(10, rows.length); i++) {
    const row = rows[i];
    if (!row || !Array.isArray(row)) continue;
    const firstCell = String(row[0] || '').trim().toLowerCase();
    if (firstCell.includes('state') && firstCell.includes('jurisdiction')) {
      headerRowIdx = i;
      dataStartIdx = i + 2;
      for (let j = 1; j < Math.min(row.length, 50); j++) {
        const cell = row[j];
        if (cell == null) continue;
        const cellStr = String(cell);
        const yearMatch = cellStr.match(/^(19[89][0-9]|200[0-9]|201[0-9]|202[0-2])/);
        if (yearMatch) {
          const year = parseInt(yearMatch[1]);
          if (year >= 1990 && year <= 2025 && !years.includes(year)) {
            years.push(year);
            yearColumns.set(year, j);
          }
        }
      }
      break;
    }
  }
  years.sort((a, b) => a - b);
  const stateData = new Map(); // stateCode -> {year: score}
  const nationalAvgByYear = new Map();
  for (let i = dataStartIdx; i < rows.length; i++) {
    const row = rows[i];
    if (!row || !Array.isArray(row)) continue;
    let stateName = String(row[0] || '').trim();
    if (!stateName) continue;
    if (stateName.toLowerCase().replace(/\s+/g, ' ').includes('united states')) {
      years.forEach(year => {
        const colIdx = yearColumns.get(year);
        if (colIdx !== undefined && row[colIdx] != null) {
          let score = null;
          const cellValue = row[colIdx];
          if (typeof cellValue === 'number') {
            score = cellValue;
          } else if (typeof cellValue === 'string') {
            const match = cellValue.match(/^(\d+\.?\d*)/);
            score = match ? parseFloat(match[1]) : null;
          }
          if (score != null && !isNaN(score) && score > 0) {
            nationalAvgByYear.set(year, score);
          }
        }
      });
      continue;
    }
    let stateCode = stateNameToCode[stateName];
    if (!stateCode) {
      for (const [key, code] of Object.entries(stateNameToCode)) {
        if (key.toLowerCase() === stateName.toLowerCase()) {
          stateCode = code;
          break;
        }
      }
    }
    if (stateCode) {
      const yearScores = {};
      years.forEach(year => {
        ... (the same coercion) ...
          if (score != null && !isNaN(score) && score > 0) {
            yearScores[year] = score;
          }
      });
      if (Object.keys(yearScores).length > 0) {
        stateData.set(stateCode, yearScores);
      }
    }
  }
  return { grade, years, stateData: Object.fromEntries(stateData),
           nationalAvgByYear: Object.fromEntries(nationalAvgByYear) };
  \<close>
  The result is modelled with the two Maps as they stand before \<open>Object.fromEntries\<close>.
\<close>

text \<open>\<open>s.match(/^(19[89][0-9]|200[0-9]|201[0-9]|202[0-2])/)\<close>: the four matched characters.\<close>

definition yearPrefix :: "string \<Rightarrow> string option" where
  "yearPrefix s =
     (let p = take 4 s
      in if length p = 4 \<and>
            (take 2 p = ''19'' \<and> p ! 2 \<in> set ''89'' \<and> isDigit (p ! 3) \<or>
             take 3 p = ''200'' \<and> isDigit (p ! 3) \<or>
             take 3 p = ''201'' \<and> isDigit (p ! 3) \<or>
             take 3 p = ''202'' \<and> p ! 3 \<in> set ''012'')
         then Some p else None)"

record cleanHeader =
  headerRowIdx :: int
  dataStartIdx :: int
  yearList :: "nat list"
  yearColumns :: "nat \<rightharpoonup> nat"

definition parseYearCell :: "row \<Rightarrow> cleanHeader \<Rightarrow> nat \<Rightarrow> cleanHeader" where
  "parseYearCell r h j =
     (case cellAt r j of
        CNull \<Rightarrow> h
      | c \<Rightarrow>
          (case yearPrefix (jsString c) of
             None \<Rightarrow> h
           | Some m \<Rightarrow>
               (let y = parseInt m
                in if y \<ge> 1990 \<and> y \<le> 2025 \<and> y \<notin> set (yearList h)
                   then h\<lparr>yearList := yearList h @ [y], yearColumns := (yearColumns h)(y \<mapsto> j)\<rparr>
                   else h)))"

fun cleanHeader_loop :: "grid \<Rightarrow> nat list \<Rightarrow> cleanHeader \<Rightarrow> cleanHeader" where
  "cleanHeader_loop rows [] h = h"
| "cleanHeader_loop rows (i # rest) h =
     (let r = rowAt rows i; firstCell = toLowerCase (cellText (cellAt r 0))
      in if str_includes firstCell ''state'' \<and> str_includes firstCell ''jurisdiction''
         then foldl (parseYearCell r)
                (h\<lparr>headerRowIdx := int i, dataStartIdx := int i + 2\<rparr>)
                [1..<min (length r) 50]
         else cleanHeader_loop rows rest h)"

definition findCleanHeader :: "grid \<Rightarrow> cleanHeader" where
  "findCleanHeader rows =
     cleanHeader_loop rows [0..<min 10 (length rows)]
       \<lparr>headerRowIdx = - 1, dataStartIdx = - 1, yearList = [], yearColumns = Map.empty\<rparr>"

text \<open>The score recorded for one cell of a year column, if any.\<close>

definition cleanScore :: "cell \<Rightarrow> rat option" where
  "cleanScore cellValue =
     (case cellScore cellValue of
        Some (Fin score) \<Rightarrow> if score > 0 then Some score else None
      | _ \<Rightarrow> None)"

text \<open>The (year, score) pairs one row yields, in the order of \<open>years\<close>.\<close>

definition readYears :: "nat list \<Rightarrow> (nat \<rightharpoonup> nat) \<Rightarrow> row \<Rightarrow> (nat \<times> rat) list" where
  "readYears ys cols r =
     List.map_filter
       (\<lambda>y. case cols y of
               None \<Rightarrow> None
             | Some colIdx \<Rightarrow> map_option (\<lambda>v. (y, v)) (cleanScore (cellAt r colIdx)))
       ys"

definition cleanAggregate :: "string \<Rightarrow> bool" where
  "cleanAggregate stateName \<longleftrightarrow>
     str_includes (collapseSpaces (toLowerCase stateName)) ''united states''"

definition matchState :: "string \<Rightarrow> key option" where
  "matchState stateName =
     (case lookupName uspsNames stateName of
        Some k \<Rightarrow> Some k
      | None \<Rightarrow>
          (case find (\<lambda>(name, code). toLowerCase name = toLowerCase stateName) uspsNames of
             Some (name, code) \<Rightarrow> Some (Code code)
           | None \<Rightarrow> None))"

record cleaned =
  clean_stateData :: "key \<rightharpoonup> (nat \<rightharpoonup> rat)"
  clean_nationalAvgByYear :: "nat \<rightharpoonup> rat"

definition cleanRow :: "nat list \<Rightarrow> (nat \<rightharpoonup> nat) \<Rightarrow> cleaned \<Rightarrow> row \<Rightarrow> cleaned" where
  "cleanRow ys cols acc r =
     (let stateName = cellText (cellAt r 0)
      in if stateName = [] then acc
         else if cleanAggregate stateName
         then acc\<lparr>clean_nationalAvgByYear :=
                    foldl (\<lambda>m (y, v). m(y \<mapsto> v)) (clean_nationalAvgByYear acc) (readYears ys cols r)\<rparr>
         else (case matchState stateName of
                 None \<Rightarrow> acc
               | Some stateCode \<Rightarrow>
                   (let yearScores = readYears ys cols r
                    in if yearScores = [] then acc
                       else acc\<lparr>clean_stateData :=
                                  (clean_stateData acc)(stateCode \<mapsto> map_of yearScores)\<rparr>)))"

text \<open>When no header was found the loop starts at index -1, finds no row there and goes
  on from row 0: \<open>nat (- 1) = 0\<close>.\<close>

definition parseNAEPFile :: "grid \<Rightarrow> nat list \<times> cleaned" where
  "parseNAEPFile rows =
     (let h = findCleanHeader rows; ys = sort (yearList h)
      in (ys, foldl (cleanRow ys (yearColumns h))
                \<lparr>clean_stateData = Map.empty, clean_nationalAvgByYear = Map.empty\<rparr>
                (drop (nat (dataStartIdx h)) rows)))"

subsection \<open>The file naep_cleaned.json\<close>

text \<open>
  \<^verbatim>\<open>
  function main() {
    const dataDir = path.join(__dirname, '..', 'data');
    const outputFile = path.join(dataDir, 'naep_cleaned.json');
    const grade4Data = parseNAEPFile(path.join(dataDir, 'fourth_grade_naep.xlsx'), 4);
    const grade8Data = parseNAEPFile(path.join(dataDir, 'eighth_grade_naep.xlsx'), 8);
    const combined = {
      grade4: { years: grade4Data.years, states: grade4Data.stateData,
                nationalAvg: grade4Data.nationalAvgByYear },
      grade8: { years: grade8Data.years, states: grade8Data.stateData,
                nationalAvg: grade8Data.nationalAvgByYear },
      allYears: ..., metadata: ...
    };
    fs.writeFileSync(outputFile, JSON.stringify(combined, null, 2));
  }
  \<close>
  This is the file that getStateScore reads.  In JSON the year keys of a state are the
  decimal texts of the years.  A state is asked for by its code; a Map key that is an
  inherited member is written under the text of that member and answers to no code.
  The national averages play no part in getStateScore and are left out.
\<close>

definition yearObject :: "nat list \<Rightarrow> (nat \<rightharpoonup> rat) \<Rightarrow> (string \<rightharpoonup> rat)" where
  "yearObject ys m =
     map_of (List.map_filter (\<lambda>y. map_option (\<lambda>v. (decimal y, v)) (m y)) ys)"

definition cleanedGrade :: "grid \<Rightarrow> gradeData" where
  "cleanedGrade rows =
     (let (ys, c) = parseNAEPFile rows
      in \<lparr>years = ys,
          states = Some (\<lambda>state. map_option (yearObject ys) (clean_stateData c (Code state)))\<rparr>)"

definition cleanedJson :: "grid \<Rightarrow> grid \<Rightarrow> (string \<rightharpoonup> gradeData)" where
  "cleanedJson rows4 rows8 =
     [''grade4'' \<mapsto> cleanedGrade rows4, ''grade8'' \<mapsto> cleanedGrade rows8]"



text \<open>What every strategy leaves behind: nothing found, or a header row inside the sheet.\<close>

definition goodLoc :: "grid \<Rightarrow> locator \<Rightarrow> bool" where
  "goodLoc rows loc \<longleftrightarrow>
     loc = notFound \<or>
     (0 \<le> headerRowIndex loc \<and> headerRowIndex loc < int (length rows) \<and> 0 \<le> dataStartRow loc)"

text \<open>The row the header search settled on (\<open>rows[headerRowIndex]\<close>).\<close>

definition headerRowOf :: "grid \<Rightarrow> row" where
  "headerRowOf rows = rows ! nat (headerRowIndex (findHeader rows))"

section \<open>Sample sheets\<close>

text \<open>The end-to-end scenario of the specification: strategy 1 finds the header.\<close>

definition gridLabel :: grid where
  "gridLabel =
     [[CStr ''State or jurisdiction'', CStr ''2019'', CStr ''2022''],
      [CStr ''United States'', CNum (Fin 220), CNum (Fin 222)],
      [CStr ''California'', CNum (Fin 215), CNum (Fin 219)]]"



text \<open>A labelled header and a state whose score cell is the text 0.\<close>

definition gridZero :: grid where
  "gridZero =
     [[CStr ''State or jurisdiction'', CStr ''2022''],
      [CStr ''Texas'', CStr ''0'']]"

text \<open>A sheet without header, years or states; and a labelled header without years.\<close>

definition gridNone :: grid where
  "gridNone = [[CStr ''Reading scores'']]"

definition gridNoYears :: grid where
  "gridNoYears = [[CStr ''State'', CStr ''Score''], [CStr ''Texas'', CNum (Fin 214)]]"


text \<open>The aggregate row of the first sample sheet, and what extraction makes of that sheet.\<close>

definition usRow :: row where
  "usRow = [CStr ''United States'', CNum (Fin 220), CNum (Fin 222)]"

definition californiaRow :: row where
  "californiaRow = [CStr ''California'', CNum (Fin 215), CNum (Fin 219)]"

definition labelResult :: naepResult where
  "labelResult =
     \<lparr>stateData =
        [Code ''CA'' \<mapsto>
           \<lparr>Low = Some (Fin 201), Middle = Some (Fin 219), High = Some (Fin 237),
            NationalAverage = Some (Fin 222)\<rparr>],
      nationalAvg = Some (Fin 222)\<rparr>"

definition zeroResult :: naepResult where
  "zeroResult =
     \<lparr>stateData =
        [Code ''TX'' \<mapsto>
           \<lparr>Low = Some (Fin (- 18)), Middle = Some (Fin 0), High = Some (Fin 18),
            NationalAverage = Some (Fin 0)\<rparr>],
      nationalAvg = None\<rparr>"

definition emptyResult :: naepResult where
  "emptyResult = \<lparr>stateData = Map.empty, nationalAvg = None\<rparr>"

definition emptyCleaned :: cleaned where
  "emptyCleaned = \<lparr>clean_stateData = Map.empty, clean_nationalAvgByYear = Map.empty\<rparr>"

text \<open>A sheet in the layout the cleaning script expects: header, a units row, then data.\<close>

definition gridUnits :: grid where
  "gridUnits =
     [[CStr ''State or jurisdiction'', CStr ''2019'', CStr ''2022''],
      [CNull, CStr ''Average scale score'', CStr ''Average scale score''],
      [CStr ''United States'', CNum (Fin 220), CNum (Fin 222)],
      [CStr ''Texas'', CStr ''0'', CStr ''214.5*'']]"

text \<open>A sheet of the same layout whose Texas row holds the numbers 0 and 250.\<close>

definition gridTexas :: grid where
  "gridTexas =
     [[CStr ''State or jurisdiction'', CStr ''2019'', CStr ''2022''],
      [CNull, CStr ''Average scale score'', CStr ''Average scale score''],
      [CStr ''Texas'', CNum (Fin 0), CNum (Fin 250)]]"

text \<open>A browser with nothing cached.\<close>

definition freshBrowser :: browser where
  "freshBrowser = \<lparr>naepDataCache = Map.empty, localStorage = Map.empty\<rparr>"

section \<open>Properties of the metric functions\<close>

declare decimal.simps [simp del]

text \<open>Unfolding sets for evaluating the string operations and the table on concrete cells.\<close>

lemmas text_defs =
  cellAt_def rowAt_def cellText_def truthy_def jsString_def numberText_def decimal.simps
  digitChar_def trim_def isSpace_def isDigit_def toLowerCase_def toLowerChar_def
  yearPattern_def

lemmas table_defs = stateNameToCode_def lookupName_def uspsNames_def objectPrototypeNames_def

text \<open>
  C10.  The SES classification is inverse to the poverty rate: every rate of at least 30
  is Low, every rate from 15 up to but excluding 30 is Middle, every rate below 15 is
  High, null and NaN are Unknown; a higher rate never gets a higher category.
\<close>

theorem getSESCategory_inverse:
  "(30 \<le> r \<longrightarrow> getSESCategory (Some (Fin r)) = ''Low'') \<and>
   (15 \<le> r \<and> r < 30 \<longrightarrow> getSESCategory (Some (Fin r)) = ''Middle'') \<and>
   (r < 15 \<longrightarrow> getSESCategory (Some (Fin r)) = ''High'') \<and>
   getSESCategory None = ''Unknown'' \<and>
   getSESCategory (Some NaN) = ''Unknown'' \<and>
   (r1 \<le> r2 \<longrightarrow>
      sesRank (getSESCategory (Some (Fin r2))) \<le> sesRank (getSESCategory (Some (Fin r1))))"
  by (simp add: getSESCategory_def sesRank_def)

theorem getSESCategory_inverse_witness:
  "getSESCategory (Some (Fin 31.5)) = ''Low'' \<and>
   getSESCategory (Some (Fin 15)) = ''Middle'' \<and>
   getSESCategory (Some (Fin 14.9)) = ''High'' \<and>
   sesRank (getSESCategory (Some (Fin 31.5))) \<le> sesRank (getSESCategory (Some (Fin 14.9)))"
  using getSESCategory_inverse [of "31.5" "14.9" "31.5"]
        getSESCategory_inverse [of 15 0 0]
        getSESCategory_inverse [of "14.9" 0 0]
  by (simp add: sesRank_def)

text \<open>
  C9.  The percent-to-score transform is the affine map with constants 320 and 2, and
  returns null for a null or NaN input.
\<close>

theorem toLiteracyScore_affine:
  "toLiteracyScore (Some (Fin p)) = Some (Fin (toScore_spec 320 2 p)) \<and>
   toLiteracyScore (Some (Fin p)) = Some (Fin (320 - 2 * p)) \<and>
   toLiteracyScore None = None \<and>
   toLiteracyScore (Some NaN) = None"
  by (simp add: toLiteracyScore_def toScore_spec_def)

text \<open>
  C6.  Bucketing by the thresholds 200, 240, 280, taken in ascending order, returns the
  first label whose upper bound strictly exceeds the value and Advanced when none does
  (a value equal to a bound belongs to the bucket above it); 199.9 is Below Basic and
  exactly 200 is Basic; null and NaN give the label Unknown (the function is total: it
  has no failing branch).
\<close>

theorem levelFromScore_bucket:
  "levelFromScore (Some (Fin v)) = bucket_spec naepLevels ''Advanced'' v \<and>
   sorted (map fst naepLevels) \<and>
   levelFromScore (Some (Fin 199.9)) = ''Below Basic'' \<and>
   levelFromScore (Some (Fin 200)) = ''Basic'' \<and>
   levelFromScore None = ''Unknown'' \<and>
   levelFromScore (Some NaN) = ''Unknown''"
  by (simp add: levelFromScore_def bucket_spec_def naepLevels_def)

subsection \<open>Binary64 rounding\<close>

declare ilog2.simps [simp del]

lemma pow2_less_iff: "(2::rat) powi m < 2 powi n \<longleftrightarrow> m < n"
proof
  assume less: "(2::rat) powi m < 2 powi n"
  show "m < n"
  proof (rule ccontr)
    assume "\<not> m < n"
    then have "(2::rat) powi n \<le> 2 powi m"
      by (intro power_int_increasing) auto
    with less show False by simp
  qed
next
  assume "m < n"
  then show "(2::rat) powi m < 2 powi n"
    by (intro power_int_strict_increasing) auto
qed

lemma pow2_le_iff: "(2::rat) powi m \<le> 2 powi n \<longleftrightarrow> m \<le> n"
  using pow2_less_iff [of n m] by (auto simp: not_less [symmetric])

lemma pow2_add: "(2::rat) powi (m + n) = 2 powi m * 2 powi n"
  by (simp add: power_int_add)

lemma pow2_diff: "(2::rat) powi (m - n) = 2 powi m / 2 powi n"
  by (simp add: power_int_diff)

lemma pow2_Suc: "(2::rat) powi (m + 1) = 2 * 2 powi m"
  by (simp add: power_int_add)

lemma ilog2_bounds: "0 < n \<Longrightarrow> 2 ^ ilog2 n \<le> n \<and> n < 2 * 2 ^ ilog2 n"
proof (induction n rule: ilog2.induct)
  case (1 n)
  show ?case
  proof (cases "n < 2")
    case True
    with "1.prems" have "n = 1" by simp
    then show ?thesis by (simp add: ilog2.simps)
  next
    case False
    then have pos: "0 < n div 2" by simp
    define p :: nat where "p = 2 ^ ilog2 (n div 2)"
    from "1.IH" [OF False pos] have ih: "p \<le> n div 2" "n div 2 < 2 * p"
      by (simp_all add: p_def)
    have eq: "ilog2 n = Suc (ilog2 (n div 2))"
      using False by (subst ilog2.simps) simp
    have "2 * p \<le> n \<and> n < 2 * (2 * p)"
      using ih by presburger
    then show ?thesis
      by (simp add: eq p_def)
  qed
qed

lemma exponentOf_bounds:
  assumes "0 < a"
  shows "2 powi exponentOf a \<le> a \<and> a < 2 powi (exponentOf a + 1)"
proof (cases "1 \<le> a")
  case True
  define n where "n = nat \<lfloor>a\<rfloor>"
  have fpos: "1 \<le> \<lfloor>a\<rfloor>" using True by simp
  then have n: "0 < n" "of_nat n \<le> a" "a < of_nat n + 1"
    by (simp_all add: n_def) linarith+
  from ilog2_bounds [OF n(1)] have b: "2 ^ ilog2 n \<le> n" "n + 1 \<le> 2 * 2 ^ ilog2 n"
    by simp_all
  have e: "exponentOf a = int (ilog2 n)"
    using True by (simp add: exponentOf_def n_def)
  have "(of_nat (2 ^ ilog2 n) :: rat) \<le> of_nat n"
    using b(1) by (simp only: of_nat_le_iff)
  then have lo: "(2::rat) ^ ilog2 n \<le> of_nat n"
    by simp
  have "(of_nat (n + 1) :: rat) \<le> of_nat (2 * 2 ^ ilog2 n)"
    using b(2) by (simp only: of_nat_le_iff)
  then have hi: "(of_nat n :: rat) + 1 \<le> 2 * 2 ^ ilog2 n"
    by simp
  have p1: "2 powi int (ilog2 n) = (2::rat) ^ ilog2 n"
    by simp
  have p2: "2 powi (int (ilog2 n) + 1) = (2::rat) * 2 ^ ilog2 n"
    by (simp add: pow2_Suc)
  show ?thesis
    unfolding e p1 p2 using lo hi n(2,3) by linarith
next
  case False
  define y where "y = 1 / a"
  have y: "1 < y" "a = 1 / y" "0 < y"
    using False assms by (simp_all add: y_def field_simps)
  define n where "n = nat \<lfloor>y\<rfloor>"
  have fpos: "1 \<le> \<lfloor>y\<rfloor>" using y(1) by simp
  then have n: "0 < n" "of_nat n \<le> y" "y < of_nat n + 1"
    by (simp_all add: n_def) linarith+
  define t where "t = ilog2 n"
  from ilog2_bounds [OF n(1)] have b: "2 ^ t \<le> n" "n + 1 \<le> 2 * 2 ^ t"
    by (simp_all add: t_def)
  have "(of_nat (2 ^ t) :: rat) \<le> of_nat n"
    using b(1) by (simp only: of_nat_le_iff)
  then have lo: "(2::rat) ^ t \<le> of_nat n"
    by simp
  have "(of_nat (n + 1) :: rat) \<le> of_nat (2 * 2 ^ t)"
    using b(2) by (simp only: of_nat_le_iff)
  then have hi: "(of_nat n :: rat) + 1 \<le> 2 * 2 ^ t"
    by simp
  have ylo: "2 ^ t \<le> y" and yhi: "y < 2 * 2 ^ t"
    using lo hi n(2,3) by linarith+
  have p: "(0::rat) < 2 ^ t" by simp
  have e0: "exponentOf a = (if y = 2 ^ t then - int t else - int t - 1)"
    using False by (simp add: exponentOf_def y_def n_def t_def Let_def)
  show ?thesis
  proof (cases "y = 2 ^ t")
    case True
    then have e: "exponentOf a = - int t"
      by (simp add: e0)
    have "a = 2 powi (- int t)"
      using True y(2) by (simp add: power_int_minus_divide)
    then show ?thesis
      unfolding e by (simp add: pow2_less_iff)
  next
    case neq: False
    then have e: "exponentOf a = - int t - 1"
      by (simp add: e0)
    have ylo': "2 ^ t < y" using ylo neq by simp
    have one: "2 powi (- int t - 1) = 1 / (2 * 2 ^ t :: rat)"
      by (simp add: pow2_diff power_int_minus_divide)
    have two: "2 powi (- int t - 1 + 1) = 1 / (2 ^ t :: rat)"
      by (simp add: power_int_minus_divide)
    have "1 / (2 * 2 ^ t) \<le> a"
      unfolding y(2) using yhi y(3) p by (simp add: field_simps)
    moreover have "0 < y * 2 ^ t"
      using y(3) by simp
    then have "1 / y < 1 / 2 ^ t"
      by (rule divide_strict_left_mono [OF ylo' zero_less_one])
    then have "a < 1 / 2 ^ t"
      by (simp add: y(2) [symmetric])
    ultimately show ?thesis
      unfolding e one two by simp
  qed
qed

lemma exponentOf_eqI:
  assumes "2 powi e \<le> a" and "a < 2 powi (e + 1)"
  shows "exponentOf a = e"
proof -
  have "0 < a"
    using assms(1) zero_less_power_int [of "2::rat" e] by linarith
  from exponentOf_bounds [OF this]
  have b: "2 powi exponentOf a \<le> a" "a < 2 powi (exponentOf a + 1)" by simp_all
  have "2 powi exponentOf a < (2::rat) powi (e + 1)" using b(1) assms(2) by linarith
  then have "exponentOf a < e + 1" by (simp add: pow2_less_iff)
  moreover have "2 powi e < (2::rat) powi (exponentOf a + 1)" using b(2) assms(1) by linarith
  then have "e < exponentOf a + 1" by (simp add: pow2_less_iff)
  ultimately show ?thesis by simp
qed

lemma roundEven_of_int [simp]: "roundEven (of_int k) = k"
  by (simp add: roundEven_def)

lemma roundEven_floor: "\<lfloor>m\<rfloor> \<le> roundEven m \<and> roundEven m \<le> \<lfloor>m\<rfloor> + 1"
  by (simp add: roundEven_def Let_def)

lemma roundEven_eqI:
  assumes "\<bar>m - of_int k\<bar> < 1 / 2"
  shows "roundEven m = k"
proof (cases "of_int k \<le> m")
  case True
  then have "\<lfloor>m\<rfloor> = k"
    using assms by (intro floor_unique) linarith+
  then show ?thesis
    using assms True by (simp add: roundEven_def Let_def)
next
  case False
  have "of_int (k - 1) \<le> m" and "m < of_int (k - 1) + 1"
    using assms False by (simp_all add: abs_less_iff)
  then have "\<lfloor>m\<rfloor> = k - 1"
    by (intro floor_unique)
  then show ?thesis
    using assms False by (simp add: roundEven_def Let_def)
qed

lemma roundEven_le:
  assumes "m \<le> of_int k"
  shows "roundEven m \<le> k"
proof (cases "m = of_int k")
  case True
  then show ?thesis by simp
next
  case False
  then have "m < of_int k" using assms by simp
  then have "\<lfloor>m\<rfloor> < k" by (simp add: floor_less_iff)
  then show ?thesis
    using roundEven_floor [of m] by linarith
qed

lemma roundEven_ge:
  assumes "of_int k \<le> m"
  shows "k \<le> roundEven m"
proof -
  have "k \<le> \<lfloor>m\<rfloor>" using assms by (simp add: le_floor_iff)
  then show ?thesis
    using roundEven_floor [of m] by linarith
qed


lemma fl_0 [simp]: "fl 0 = 0"
  by (simp add: fl_def)

lemma pow2_nonneg: "0 \<le> k \<Longrightarrow> (2::rat) powi k = 2 ^ nat k"
  by (simp add: power_int_def)

lemma fl_form:
  assumes "x \<noteq> 0"
  obtains n q where "fl x = of_int n * 2 powi q" and "- 1074 \<le> q" and "\<bar>n\<bar> \<le> 2 ^ 53"
proof -
  define e where "e = exponentOf \<bar>x\<bar>"
  define q where "q = max e (- 1022) - 52"
  define m where "m = x / 2 powi q"
  have b: "\<bar>x\<bar> < 2 powi (e + 1)"
    using exponentOf_bounds [of "\<bar>x\<bar>"] assms by (simp add: e_def)
  have q1: "- 1074 \<le> q" by (simp add: q_def)
  have q2: "e + 1 - q \<le> 53" by (simp add: q_def)
  have "\<bar>m\<bar> = \<bar>x\<bar> / 2 powi q"
    by (simp add: m_def)
  also have "\<dots> < 2 powi (e + 1) / 2 powi q"
    using b by (simp add: divide_strict_right_mono)
  also have "\<dots> = 2 powi (e + 1 - q)"
    by (simp add: pow2_diff)
  also have "\<dots> \<le> 2 powi 53"
    using q2 by (simp only: pow2_le_iff)
  finally have mb: "\<bar>m\<bar> < 2 ^ 53" by simp
  have "m \<le> of_int (2 ^ 53)" and "of_int (- (2 ^ 53)) \<le> m"
    using mb by (simp_all add: abs_less_iff)
  then have "roundEven m \<le> 2 ^ 53" and "- (2 ^ 53) \<le> roundEven m"
    by (simp_all only: roundEven_le roundEven_ge)
  then have nb: "\<bar>roundEven m\<bar> \<le> 2 ^ 53"
    by (simp add: abs_le_iff)
  have "fl x = of_int (roundEven m) * 2 powi q"
    using assms by (simp add: fl_def Let_def e_def q_def m_def)
  then show thesis
    using q1 nb by (rule that)
qed

lemma fl_exact:
  assumes "\<bar>n\<bar> < 2 ^ 53" and "- 1074 \<le> q"
  shows "fl (of_int n * 2 powi q) = of_int n * 2 powi q"
proof (cases "n = 0")
  case True
  then show ?thesis by simp
next
  case False
  define y where "y = of_int n * (2::rat) powi q"
  have y0: "y \<noteq> 0"
    using False by (simp add: y_def)
  define e where "e = exponentOf \<bar>y\<bar>"
  define q' where "q' = max e (- 1022) - 52"
  have ay: "\<bar>y\<bar> = of_int \<bar>n\<bar> * 2 powi q"
    by (simp add: y_def abs_mult)
  have "2 powi e \<le> \<bar>y\<bar>"
    using exponentOf_bounds [of "\<bar>y\<bar>"] y0 by (simp add: e_def)
  moreover have "(of_int \<bar>n\<bar> :: rat) < of_int (2 ^ 53)"
    using assms(1) by (simp only: of_int_less_iff)
  then have "\<bar>y\<bar> < 2 powi 53 * 2 powi q"
    unfolding ay by (intro mult_strict_right_mono) simp_all
  ultimately have "(2::rat) powi e < 2 powi (53 + q)"
    by (simp add: pow2_add)
  then have "e < 53 + q"
    by (simp only: pow2_less_iff)
  then have le: "q' \<le> q"
    using assms(2) by (simp add: q'_def)
  define k where "k = n * 2 ^ nat (q - q')"
  have split: "(2::rat) powi q = 2 powi (q - q') * 2 powi q'"
    by (simp add: pow2_add [symmetric])
  have "y / 2 powi q' = of_int n * 2 powi (q - q')"
    by (simp add: y_def split)
  also have "\<dots> = of_int k"
    using le by (simp add: k_def pow2_nonneg)
  finally have "roundEven (y / 2 powi q') = k"
    by simp
  then have "fl y = of_int k * 2 powi q'"
    using y0 by (simp add: fl_def Let_def e_def q'_def)
  also have "\<dots> = of_int n * 2 powi (q - q') * 2 powi q'"
    using le by (simp add: k_def pow2_nonneg)
  also have "\<dots> = y"
    by (simp add: y_def split)
  finally show ?thesis
    by (simp add: y_def)
qed

lemma fl_exact_le:
  assumes "\<bar>n\<bar> \<le> 2 ^ 53" and "- 1074 \<le> q"
  shows "fl (of_int n * 2 powi q) = of_int n * 2 powi q"
proof (cases "\<bar>n\<bar> < 2 ^ 53")
  case True
  then show ?thesis using assms(2) by (rule fl_exact)
next
  case False
  then have "\<bar>n\<bar> = 2 ^ 53" using assms(1) by simp
  then have "n = 2 ^ 53 \<or> n = - (2 ^ 53)"
    by (simp add: abs_if split: if_splits)
  then have n: "n = 2 * (n div 2)" and half: "\<bar>n div 2\<bar> < 2 ^ 53"
    by auto
  have "of_int n * (2::rat) powi q = of_int (n div 2) * 2 powi (q + 1)"
    by (subst n) (simp add: pow2_Suc)
  moreover have "fl (of_int (n div 2) * 2 powi (q + 1)) = of_int (n div 2) * 2 powi (q + 1)"
    using half assms(2) by (intro fl_exact) simp_all
  ultimately show ?thesis by simp
qed

lemma fl_idem [simp]: "fl (fl x) = fl x"
proof (cases "x = 0")
  case True
  then show ?thesis by simp
next
  case False
  then obtain n q where "fl x = of_int n * 2 powi q" and "- 1074 \<le> q" and "\<bar>n\<bar> \<le> 2 ^ 53"
    by (rule fl_form)
  then show ?thesis
    by (simp add: fl_exact_le)
qed

lemma fl_of_int: "\<bar>k\<bar> \<le> 2 ^ 53 \<Longrightarrow> fl (of_int k) = of_int k"
  using fl_exact_le [of k 0] by simp

lemma fl_eqI:
  assumes "2 powi e \<le> \<bar>x\<bar>" and "\<bar>x\<bar> < 2 powi (e + 1)"
    and "\<bar>x / 2 powi (max e (- 1022) - 52) - of_int k\<bar> < 1 / 2"
  shows "fl x = of_int k * 2 powi (max e (- 1022) - 52)"
proof -
  have "0 < \<bar>x\<bar>"
    using assms(1) zero_less_power_int [of "2::rat" e] by linarith
  then have x0: "x \<noteq> 0" by simp
  have e: "exponentOf \<bar>x\<bar> = e"
    using assms(1,2) by (rule exponentOf_eqI)
  have "roundEven (x / 2 powi (max e (- 1022) - 52)) = k"
    using assms(3) by (rule roundEven_eqI)
  then show ?thesis
    using x0 by (simp add: fl_def Let_def e)
qed


lemma roundEven_tieI:
  assumes "m = of_int f + 1 / 2"
  shows "roundEven m = (if even f then f else f + 1)"
proof -
  have "\<lfloor>m\<rfloor> = f"
    unfolding assms by (intro floor_unique) simp_all
  then show ?thesis
    by (simp add: roundEven_def Let_def assms)
qed

lemma fl_tieI:
  assumes "2 powi e \<le> \<bar>x\<bar>" and "\<bar>x\<bar> < 2 powi (e + 1)"
    and "x / 2 powi (max e (- 1022) - 52) = of_int f + 1 / 2"
  shows "fl x = of_int (if even f then f else f + 1) * 2 powi (max e (- 1022) - 52)"
proof -
  have "0 < \<bar>x\<bar>"
    using assms(1) zero_less_power_int [of "2::rat" e] by linarith
  then have x0: "x \<noteq> 0" by simp
  have e: "exponentOf \<bar>x\<bar> = e"
    using assms(1,2) by (rule exponentOf_eqI)
  have "roundEven (x / 2 powi (max e (- 1022) - 52)) = (if even f then f else f + 1)"
    using assms(3) by (rule roundEven_tieI)
  then show ?thesis
    using x0 by (simp add: fl_def Let_def e)
qed


subsection \<open>The regression\<close>

lemma toDouble_0 [simp]: "toDouble 0 = Double 0"
  by (simp add: toDouble_def)

lemma toDouble_not_nan [simp]: "toDouble x \<noteq> NotANumber"
  by (simp add: toDouble_def Let_def)

lemma toDouble_idem: "toDouble x = Double y \<Longrightarrow> toDouble y = Double y"
  by (auto simp: toDouble_def Let_def split: if_splits)

lemma toDouble_of_int: "\<bar>k\<bar> \<le> 2 ^ 53 \<Longrightarrow> toDouble (of_int k) = Double (of_int k)"
proof -
  assume k: "\<bar>k\<bar> \<le> 2 ^ 53"
  then have "(of_int \<bar>k\<bar> :: rat) \<le> of_int (2 ^ 53)"
    by (simp only: of_int_le_iff)
  then have "\<bar>of_int k :: rat\<bar> < 2 ^ 1024"
    by simp
  then show ?thesis
    using k by (simp add: toDouble_def fl_of_int abs_less_iff)
qed

lemma toDouble_numeral [simp]:
  "numeral n \<le> (2 ^ 53 :: int) \<Longrightarrow> toDouble (numeral n) = Double (numeral n)"
  using toDouble_of_int [of "numeral n"] by simp

lemma toDouble_neg_numeral [simp]:
  "numeral n \<le> (2 ^ 53 :: int) \<Longrightarrow> toDouble (- numeral n) = Double (- numeral n)"
  using toDouble_of_int [of "- numeral n"] by simp

lemma toDouble_1 [simp]: "toDouble 1 = Double 1"
  using toDouble_of_int [of 1] by simp

lemma toDouble_neg_1 [simp]: "toDouble (- 1) = Double (- 1)"
  using toDouble_of_int [of "- 1"] by simp

lemma accumulate_folds:
  "foldl (\<lambda>(num, den) (x, y).
              (fadd num (fmul (fsub (Double x) xm) (fsub (Double y) ym)),
               fadd den (fmul (fsub (Double x) xm) (fsub (Double x) xm))))
       (a, b) data =
     (foldl (\<lambda>sum (x, y). fadd sum (fmul (fsub (Double x) xm) (fsub (Double y) ym))) a data,
      foldl (\<lambda>sum (x, y). fadd sum (fmul (fsub (Double x) xm) (fsub (Double x) xm))) b data)"
  by (induction data arbitrary: a b) auto

lemma accumulate_sums:
  "accumulate (d3mean (map fst pts)) (d3mean (map snd pts)) pts = (sxy_spec pts, sxx_spec pts)"
  by (simp add: accumulate_def accumulate_folds sxy_spec_def sxx_spec_def)

lemma sum_not_nan:
  "s \<noteq> NotANumber \<Longrightarrow> foldl (\<lambda>sum x. fadd sum (Double x)) s xs \<noteq> NotANumber"
proof (induction xs arbitrary: s)
  case Nil
  then show ?case by simp
next
  case (Cons x xs)
  have "fadd s (Double x) \<noteq> NotANumber"
    using Cons.prems by (cases s) simp_all
  then show ?case
    using Cons.IH by simp
qed

lemma d3mean_cases:
  assumes "xs \<noteq> []"
  shows "d3mean xs = PlusInfinity \<or> d3mean xs = MinusInfinity \<or>
         (\<exists>m. d3mean xs = Double m \<and> toDouble m = Double m)"
proof -
  define s where "s = foldl (\<lambda>sum x. fadd sum (Double x)) (Double 0) xs"
  have s: "s \<noteq> NotANumber"
    unfolding s_def by (rule sum_not_nan) simp
  have n: "(of_nat (length xs) :: rat) \<noteq> 0" "(0::rat) \<le> of_nat (length xs)"
    using assms by simp_all
  have m: "d3mean xs = fdiv s (Double (of_nat (length xs)))"
    using assms by (simp add: d3mean_def s_def)
  show ?thesis
  proof (cases s)
    case NotANumber
    with s show ?thesis by simp
  next
    case PlusInfinity
    then show ?thesis using m n by simp
  next
    case MinusInfinity
    then show ?thesis using m n by simp
  next
    case (Double v)
    then have eq: "d3mean xs = toDouble (v / of_nat (length xs))"
      using m n by simp
    show ?thesis
    proof (cases "toDouble (v / of_nat (length xs))")
      case (Double m)
      then show ?thesis using eq toDouble_idem [OF Double] by simp
    qed (simp_all add: eq)
  qed
qed

lemma squares_infinite_stay:
  assumes "xm = PlusInfinity \<or> xm = MinusInfinity"
  shows "foldl (\<lambda>sum (x, y). fadd sum (fmul (fsub (Double x) xm) (fsub (Double x) xm)))
           PlusInfinity pts = PlusInfinity"
  using assms by (induction pts) (auto simp: fsub_def)

lemma squares_infinite:
  assumes "xm = PlusInfinity \<or> xm = MinusInfinity" and "pts \<noteq> []"
  shows "foldl (\<lambda>sum (x, y). fadd sum (fmul (fsub (Double x) xm) (fsub (Double x) xm)))
           (Double 0) pts = PlusInfinity"
proof (cases pts)
  case Nil
  with assms(2) show ?thesis by simp
next
  case (Cons p rest)
  obtain x y where p: "p = (x, y)" by (cases p)
  have "fadd (Double 0) (fmul (fsub (Double x) xm) (fsub (Double x) xm)) = PlusInfinity"
    using assms(1) by (auto simp: fsub_def)
  then show ?thesis
    using squares_infinite_stay [OF assms(1)] by (simp add: Cons p)
qed

lemma sxx_zero_mean_finite:
  assumes "pts \<noteq> []" and "sxx_spec pts = Double 0"
  shows "\<exists>m. d3mean (map fst pts) = Double m"
proof -
  have ne: "map fst pts \<noteq> []" using assms(1) by simp
  from d3mean_cases [OF ne] show ?thesis
  proof (elim disjE)
    assume "d3mean (map fst pts) = PlusInfinity"
    then have "sxx_spec pts = PlusInfinity"
      using squares_infinite [of "d3mean (map fst pts)" pts] assms(1) by (simp add: sxx_spec_def)
    with assms(2) show ?thesis by simp
  next
    assume "d3mean (map fst pts) = MinusInfinity"
    then have "sxx_spec pts = PlusInfinity"
      using squares_infinite [of "d3mean (map fst pts)" pts] assms(1) by (simp add: sxx_spec_def)
    with assms(2) show ?thesis by simp
  qed auto
qed

lemma zero_slope_intercept:
  assumes "pts \<noteq> []" and "sxx_spec pts = Double 0"
  shows "fsub (d3mean (map snd pts)) (fmul (Double 0) (d3mean (map fst pts))) =
         d3mean (map snd pts)"
proof -
  obtain m where xm: "d3mean (map fst pts) = Double m"
    using sxx_zero_mean_finite [OF assms] by blast
  have ne: "map snd pts \<noteq> []" using assms(1) by simp
  from d3mean_cases [OF ne] show ?thesis
    by (auto simp: xm fsub_def)
qed

lemma equal_x_zero_denominator:
  assumes "\<forall>p\<in>set pts. Double (fst p) = xm"
  shows "foldl (\<lambda>sum (x, y). fadd sum (fmul (fsub (Double x) xm) (fsub (Double x) xm)))
           (Double 0) pts = Double 0"
  using assms by (induction pts) (auto simp: fsub_def)


text \<open>
  C1 (as amended).  The fit returns null for fewer than two points, and for two or more
  points it never returns null.  It computes the means and the two sums in binary64.
  When the computed denominator is exactly zero it does not divide: it returns slope 0
  and the computed mean of y as intercept; this is the case whenever every x equals the
  computed mean of x.  Otherwise it returns the quotient of the computed sums as slope
  and the mean of y minus slope times the mean of x as intercept, and the inline trend
  line of visualization4.js computes the same two values.  That trend line has no
  guard: when its computed denominator is zero it divides by it, and its slope is NaN
  or an infinity.  fit([(1,2),(2,4),(3,6)]) is slope 2, intercept 0; a single point
  gives null.
\<close>

theorem calculateLinearRegression_fit:
  "(length pts < 2 \<longrightarrow> calculateLinearRegression pts = None) \<and>
   (2 \<le> length pts \<and> sxx_spec pts = Double 0 \<longrightarrow>
      calculateLinearRegression pts =
        Some \<lparr>slope = Double 0, intercept = d3mean (map snd pts)\<rparr>) \<and>
   (2 \<le> length pts \<and> sxx_spec pts \<noteq> Double 0 \<longrightarrow>
      calculateLinearRegression pts =
        Some \<lparr>slope = slope_spec pts, intercept = intercept_spec pts\<rparr> \<and>
      trendLine pts = (slope_spec pts, intercept_spec pts)) \<and>
   ((\<forall>p\<in>set pts. Double (fst p) = d3mean (map fst pts)) \<longrightarrow> sxx_spec pts = Double 0) \<and>
   (sxx_spec pts = Double 0 \<longrightarrow> \<not> isFinite (fst (trendLine pts))) \<and>
   calculateLinearRegression [(1, 2), (2, 4), (3, 6)] =
     Some \<lparr>slope = Double 2, intercept = Double 0\<rparr> \<and>
   calculateLinearRegression [(5, 10)] = None"
proof (intro conjI impI)
  show "calculateLinearRegression pts = None" if "length pts < 2"
    using that by (simp add: calculateLinearRegression_def)
  show "calculateLinearRegression pts =
        Some \<lparr>slope = Double 0, intercept = d3mean (map snd pts)\<rparr>"
    if flat: "2 \<le> length pts \<and> sxx_spec pts = Double 0"
  proof -
    have "pts \<noteq> []" using flat by auto
    then show ?thesis
      using flat zero_slope_intercept [of pts]
      by (simp add: calculateLinearRegression_def accumulate_sums)
  qed
  show "calculateLinearRegression pts =
        Some \<lparr>slope = slope_spec pts, intercept = intercept_spec pts\<rparr>"
    if "2 \<le> length pts \<and> sxx_spec pts \<noteq> Double 0"
    using that
    by (simp add: calculateLinearRegression_def accumulate_sums slope_spec_def intercept_spec_def
          Let_def)
  show "trendLine pts = (slope_spec pts, intercept_spec pts)"
    if "2 \<le> length pts \<and> sxx_spec pts \<noteq> Double 0"
    by (simp add: trendLine_def accumulate_sums slope_spec_def intercept_spec_def Let_def)
  show "sxx_spec pts = Double 0" if "\<forall>p\<in>set pts. Double (fst p) = d3mean (map fst pts)"
    using that unfolding sxx_spec_def by (rule equal_x_zero_denominator)
  show "\<not> isFinite (fst (trendLine pts))" if "sxx_spec pts = Double 0"
    using that
    by (cases "sxy_spec pts") (simp_all add: trendLine_def accumulate_sums Let_def)
  show "calculateLinearRegression [(1, 2), (2, 4), (3, 6)] =
     Some \<lparr>slope = Double 2, intercept = Double 0\<rparr>"
    by (simp add: calculateLinearRegression_def d3mean_def accumulate_def fsub_def)
  show "calculateLinearRegression [(5, 10)] = None"
    by (simp add: calculateLinearRegression_def)
qed

lemma flat_example:
  "d3mean (map fst [(3, 1), (3, 5)]) = Double 3 \<and>
   d3mean (map snd [(3, 1), (3, 5)]) = Double 3 \<and>
   sxx_spec [(3, 1), (3, 5)] = Double 0"
  by (simp add: sxx_spec_def d3mean_def fsub_def)

lemma steep_example:
  "sxx_spec [(0, 1), (2, 5)] = Double 2 \<and>
   slope_spec [(0, 1), (2, 5)] = Double 2 \<and>
   intercept_spec [(0, 1), (2, 5)] = Double 1"
  by (simp add: slope_spec_def intercept_spec_def sxx_spec_def sxy_spec_def d3mean_def fsub_def)

theorem calculateLinearRegression_fit_witness:
  "calculateLinearRegression [] = None \<and>
   calculateLinearRegression [(3, 1), (3, 5)] = Some \<lparr>slope = Double 0, intercept = Double 3\<rparr> \<and>
   calculateLinearRegression [(0, 1), (2, 5)] = Some \<lparr>slope = Double 2, intercept = Double 1\<rparr> \<and>
   trendLine [(0, 1), (2, 5)] = (Double 2, Double 1) \<and>
   sxx_spec [(3, 1), (3, 5)] = Double 0 \<and>
   \<not> isFinite (fst (trendLine [(3, 1), (3, 5)]))"
proof -
  have "calculateLinearRegression [] = None"
    using calculateLinearRegression_fit [of "[]"] by simp
  moreover have "sxx_spec [(3, 1), (3, 5)] = Double 0"
    using calculateLinearRegression_fit [of "[(3, 1), (3, 5)]"] flat_example by simp
  moreover have "calculateLinearRegression [(3, 1), (3, 5)] =
      Some \<lparr>slope = Double 0, intercept = Double 3\<rparr> \<and>
      \<not> isFinite (fst (trendLine [(3, 1), (3, 5)]))"
    using calculateLinearRegression_fit [of "[(3, 1), (3, 5)]"] flat_example by simp
  moreover have "calculateLinearRegression [(0, 1), (2, 5)] =
      Some \<lparr>slope = Double 2, intercept = Double 1\<rparr> \<and>
      trendLine [(0, 1), (2, 5)] = (Double 2, Double 1)"
    using calculateLinearRegression_fit [of "[(0, 1), (2, 5)]"] steep_example by simp
  ultimately show ?thesis
    by simp
qed

text \<open>Two points with the same x: the fit is not null.\<close>

theorem calculateLinearRegression_zero_variance_counterexample:
  "calculateLinearRegression [(3, 1), (3, 5)] = Some \<lparr>slope = Double 0, intercept = Double 3\<rparr> \<and>
   calculateLinearRegression [(3, 1), (3, 5)] \<noteq> None"
  by (simp add: calculateLinearRegression_def d3mean_def accumulate_def fsub_def)

text \<open>The unguarded trend line of visualization4.js at the same input, and on no points.\<close>

lemma trendLine_zero_variance:
  "trendLine [(3, 1), (3, 5)] = (NotANumber, NotANumber) \<and>
   trendLine [] = (NotANumber, NotANumber)"
  by (simp add: trendLine_def d3mean_def accumulate_def fsub_def)

text \<open>
  Points with equal x need not have a zero denominator.  For three points at x = 0.1 the
  computed mean of x is 0.10000000000000002, the computed denominator is about 5.78e-34,
  and the fit divides: slope 10.666666666666666, intercept 1.2666666666666666.  The
  roundings on the way are checked one by one.
\<close>

lemma tenth_step_1:
  "toDouble (3602879701896397 / 36028797018963968) = Double (3602879701896397 / 36028797018963968)"
proof -
  have "fl (3602879701896397 / 36028797018963968) = of_int 7205759403792794 * 2 powi (max (- 4) (- 1022) - 52)"
    by (rule fl_eqI) simp_all
  then show ?thesis
    by (simp add: toDouble_def)
qed

lemma tenth_step_2:
  "toDouble (3602879701896397 / 18014398509481984) = Double (3602879701896397 / 18014398509481984)"
proof -
  have "fl (3602879701896397 / 18014398509481984) = of_int 7205759403792794 * 2 powi (max (- 3) (- 1022) - 52)"
    by (rule fl_eqI) simp_all
  then show ?thesis
    by (simp add: toDouble_def)
qed

lemma tenth_step_3:
  "toDouble (10808639105689191 / 36028797018963968) = Double (1351079888211149 / 4503599627370496)"
proof -
  have "fl (10808639105689191 / 36028797018963968) = of_int (if even (5404319552844595::int) then 5404319552844595 else 5404319552844595 + 1) * 2 powi (max (- 2) (- 1022) - 52)"
    by (rule fl_tieI) simp_all
  then show ?thesis
    by (simp add: toDouble_def)
qed

lemma tenth_step_4:
  "toDouble (1351079888211149 / 13510798882111488) = Double (7205759403792795 / 72057594037927936)"
proof -
  have "fl (1351079888211149 / 13510798882111488) = of_int 7205759403792795 * 2 powi (max (- 4) (- 1022) - 52)"
    by (rule fl_eqI) simp_all
  then show ?thesis
    by (simp add: toDouble_def)
qed

lemma tenth_step_5:
  "toDouble (7 / 3) = Double (5254199565265579 / 2251799813685248)"
proof -
  have "fl (7 / 3) = of_int 5254199565265579 * 2 powi (max (1) (- 1022) - 52)"
    by (rule fl_eqI) simp_all
  then show ?thesis
    by (simp add: toDouble_def)
qed

lemma tenth_step_6:
  "toDouble (- (1 / 72057594037927936)) = Double (- (1 / 72057594037927936))"
proof -
  have "fl (- (1 / 72057594037927936)) = of_int (- 4503599627370496) * 2 powi (max (- 56) (- 1022) - 52)"
    by (rule fl_eqI) simp_all
  then show ?thesis
    by (simp add: toDouble_def)
qed

lemma tenth_step_7:
  "toDouble (- (3002399751580331 / 2251799813685248)) = Double (- (3002399751580331 / 2251799813685248))"
proof -
  have "fl (- (3002399751580331 / 2251799813685248)) = of_int (- 6004799503160662) * 2 powi (max (0) (- 1022) - 52)"
    by (rule fl_eqI) simp_all
  then show ?thesis
    by (simp add: toDouble_def)
qed

lemma tenth_step_8:
  "toDouble (3002399751580331 / 162259276829213363391578010288128) = Double (3002399751580331 / 162259276829213363391578010288128)"
proof -
  have "fl (3002399751580331 / 162259276829213363391578010288128) = of_int 6004799503160662 * 2 powi (max (- 56) (- 1022) - 52)"
    by (rule fl_eqI) simp_all
  then show ?thesis
    by (simp add: toDouble_def)
qed

lemma tenth_step_9:
  "toDouble (1 / 5192296858534827628530496329220096) = Double (1 / 5192296858534827628530496329220096)"
proof -
  have "fl (1 / 5192296858534827628530496329220096) = of_int 4503599627370496 * 2 powi (max (- 112) (- 1022) - 52)"
    by (rule fl_eqI) simp_all
  then show ?thesis
    by (simp add: toDouble_def)
qed

lemma tenth_step_10:
  "toDouble (- (750599937895083 / 2251799813685248)) = Double (- (750599937895083 / 2251799813685248))"
proof -
  have "fl (- (750599937895083 / 2251799813685248)) = of_int (- 6004799503160664) * 2 powi (max (- 2) (- 1022) - 52)"
    by (rule fl_eqI) simp_all
  then show ?thesis
    by (simp add: toDouble_def)
qed

lemma tenth_step_11:
  "toDouble (750599937895083 / 162259276829213363391578010288128) = Double (750599937895083 / 162259276829213363391578010288128)"
proof -
  have "fl (750599937895083 / 162259276829213363391578010288128) = of_int 6004799503160664 * 2 powi (max (- 58) (- 1022) - 52)"
    by (rule fl_eqI) simp_all
  then show ?thesis
    by (simp add: toDouble_def)
qed

lemma tenth_step_12:
  "toDouble (1876499844737707 / 81129638414606681695789005144064) = Double (1876499844737707 / 81129638414606681695789005144064)"
proof -
  have "fl (1876499844737707 / 81129638414606681695789005144064) = of_int 7505999378950828 * 2 powi (max (- 56) (- 1022) - 52)"
    by (rule fl_eqI) simp_all
  then show ?thesis
    by (simp add: toDouble_def)
qed

lemma tenth_step_13:
  "toDouble (1 / 2596148429267413814265248164610048) = Double (1 / 2596148429267413814265248164610048)"
proof -
  have "fl (1 / 2596148429267413814265248164610048) = of_int 4503599627370496 * 2 powi (max (- 111) (- 1022) - 52)"
    by (rule fl_eqI) simp_all
  then show ?thesis
    by (simp add: toDouble_def)
qed

lemma tenth_step_14:
  "toDouble (3752999689475413 / 2251799813685248) = Double (3752999689475413 / 2251799813685248)"
proof -
  have "fl (3752999689475413 / 2251799813685248) = of_int 7505999378950826 * 2 powi (max (0) (- 1022) - 52)"
    by (rule fl_eqI) simp_all
  then show ?thesis
    by (simp add: toDouble_def)
qed

lemma tenth_step_15:
  "toDouble (- (3752999689475413 / 162259276829213363391578010288128)) = Double (- (3752999689475413 / 162259276829213363391578010288128))"
proof -
  have "fl (- (3752999689475413 / 162259276829213363391578010288128)) = of_int (- 7505999378950826) * 2 powi (max (- 56) (- 1022) - 52)"
    by (rule fl_eqI) simp_all
  then show ?thesis
    by (simp add: toDouble_def)
qed

lemma tenth_step_16:
  "toDouble (1 / 162259276829213363391578010288128) = Double (1 / 162259276829213363391578010288128)"
proof -
  have "fl (1 / 162259276829213363391578010288128) = of_int 4503599627370496 * 2 powi (max (- 107) (- 1022) - 52)"
    by (rule fl_eqI) simp_all
  then show ?thesis
    by (simp add: toDouble_def)
qed

lemma tenth_step_17:
  "toDouble (3 / 5192296858534827628530496329220096) = Double (3 / 5192296858534827628530496329220096)"
proof -
  have "fl (3 / 5192296858534827628530496329220096) = of_int 6755399441055744 * 2 powi (max (- 111) (- 1022) - 52)"
    by (rule fl_eqI) simp_all
  then show ?thesis
    by (simp add: toDouble_def)
qed

lemma tenth_step_18:
  "toDouble (32 / 3) = Double (6004799503160661 / 562949953421312)"
proof -
  have "fl (32 / 3) = of_int 6004799503160661 * 2 powi (max (3) (- 1022) - 52)"
    by (rule fl_eqI) simp_all
  then show ?thesis
    by (simp add: toDouble_def)
qed

lemma tenth_step_19:
  "toDouble (43269140487790236242553639237495 / 40564819207303340847894502572032) = Double (2401919801264265 / 2251799813685248)"
proof -
  have "fl (43269140487790236242553639237495 / 40564819207303340847894502572032) = of_int 4803839602528530 * 2 powi (max (0) (- 1022) - 52)"
    by (rule fl_eqI) simp_all
  then show ?thesis
    by (simp add: toDouble_def)
qed

lemma tenth_step_20:
  "toDouble (1426139882000657 / 1125899906842624) = Double (1426139882000657 / 1125899906842624)"
proof -
  have "fl (1426139882000657 / 1125899906842624) = of_int 5704559528002628 * 2 powi (max (0) (- 1022) - 52)"
    by (rule fl_eqI) simp_all
  then show ?thesis
    by (simp add: toDouble_def)
qed

lemmas tenth_steps = tenth_step_1 tenth_step_2 tenth_step_3 tenth_step_4 tenth_step_5 tenth_step_6 tenth_step_7 tenth_step_8 tenth_step_9 tenth_step_10 tenth_step_11 tenth_step_12 tenth_step_13 tenth_step_14 tenth_step_15 tenth_step_16 tenth_step_17 tenth_step_18 tenth_step_19 tenth_step_20

lemma tenth_example:
  "d3mean (map fst tenthPoints) =
     Double (7205759403792795 / 72057594037927936) \<and>
   sxx_spec tenthPoints =
     Double (3 / 5192296858534827628530496329220096) \<and>
   calculateLinearRegression tenthPoints =
     Some \<lparr>slope = Double (6004799503160661 / 562949953421312),
           intercept = Double (1426139882000657 / 1125899906842624)\<rparr>"
  by (simp add: calculateLinearRegression_def sxx_spec_def d3mean_def accumulate_def fsub_def
        tenthPoints_def tenth_def tenth_steps)


section \<open>Number rendering\<close>

text \<open>
  An integer prints as its digits below 10^21 and in exponent form from there on, so
  the prefix year pattern of the cleaning script, which is not anchored at the end,
  matches 2019 followed by seventeen zeros but not 2019 followed by eighteen.
\<close>

lemma numberText_examples:
  "numberText 2019 = ''2019'' \<and>
   numberText (- 5) = ''-5'' \<and>
   numberText (10 ^ 21) = ''1e+21'' \<and>
   numberText (2019 * 10 ^ 18) = ''2.019e+21'' \<and>
   numberText (2019 * 10 ^ 17) = ''201900000000000000000''"
  by (simp add: numberText_def exponentText_def decimal.simps digitChar_def)

lemma yearPrefix_large:
  "yearPrefix (jsString (CNum (Fin (2019 * 10 ^ 18)))) = None \<and>
   yearPrefix (jsString (CNum (Fin (2019 * 10 ^ 17)))) = Some ''2019''"
  by (simp add: yearPrefix_def jsString_def numberText_def exponentText_def decimal.simps
        digitChar_def isDigit_def)

section \<open>Properties of the header search\<close>

lemma strategy1_loop_cases:
  "strategy1_loop rows idx loc = loc \<or>
   (\<exists>i\<in>set idx. strategy1_loop rows idx loc = loc\<lparr>dataStartRow := int i + 1, headerRowIndex := int i\<rparr>)"
  by (induction idx) (auto simp: Let_def)

lemma strategy2_loop_cases:
  "strategy2_loop rows idx loc = loc \<or>
   (\<exists>i\<in>set idx. strategy2_loop rows idx loc = loc\<lparr>headerRowIndex := int i, dataStartRow := int i + 1\<rparr>)"
  by (induction idx) auto

lemma backScan_cases:
  "backScan rows i idx loc = loc \<or>
   (\<exists>j\<in>set idx. backScan rows i idx loc = loc\<lparr>headerRowIndex := int j, dataStartRow := int i\<rparr>)"
  by (induction idx) auto

lemma strategy3_loop_cases:
  "headerRowIndex loc = - 1 \<Longrightarrow>
   strategy3_loop rows idx loc = loc \<or>
   (\<exists>i\<in>set idx. \<exists>j<i. strategy3_loop rows idx loc = loc\<lparr>headerRowIndex := int j, dataStartRow := int i\<rparr>)"
proof (induction idx)
  case Nil
  then show ?case by simp
next
  case (Cons i idx)
  let ?scanned = "backScan rows i [i - 5..<i] loc"
  consider (same) "?scanned = loc"
    | (hit) j where "j < i" "?scanned = loc\<lparr>headerRowIndex := int j, dataStartRow := int i\<rparr>"
    using backScan_cases [of rows i "[i - 5..<i]" loc] by auto
  then show ?case
  proof cases
    case same
    then show ?thesis
      using Cons by (auto simp: Let_def)
  next
    case hit
    then have "headerRowIndex ?scanned \<noteq> - 1"
      by simp
    then show ?thesis
      using Cons hit by (auto simp: Let_def)
  qed
qed

lemma strategy1_good: "goodLoc rows (strategy1 rows notFound)"
  using strategy1_loop_cases [of rows "[0..<min 15 (length rows)]" notFound]
  by (auto simp: goodLoc_def strategy1_def)

lemma strategy2_scan_good: "goodLoc rows (strategy2_scan rows notFound)"
  using strategy2_loop_cases [of rows "[0..<min 15 (length rows)]" notFound]
  by (auto simp: goodLoc_def strategy2_scan_def)

lemma strategy3_scan_good: "goodLoc rows (strategy3_scan rows notFound)"
  using strategy3_loop_cases [of notFound rows "[0..<min 30 (length rows)]"]
  by (auto simp: goodLoc_def strategy3_scan_def notFound_def)

lemma goodLoc_located: "goodLoc rows loc \<Longrightarrow> located loc \<longleftrightarrow> loc \<noteq> notFound"
  by (auto simp: goodLoc_def located_def notFound_def)

lemma notFound_sel [simp]: "headerRowIndex notFound = - 1" "dataStartRow notFound = - 1"
  by (simp_all add: notFound_def)

lemma notFound_not_located [simp]: "\<not> located notFound"
  by (simp add: located_def)

lemma findHeader_cases:
  "findHeader rows =
     (if located (strategy1 rows notFound) then strategy1 rows notFound
      else if located (strategy2_scan rows notFound) then strategy2_scan rows notFound
      else strategy3_scan rows notFound)"
proof (cases "located (strategy1 rows notFound)")
  case True
  then show ?thesis
    by (simp add: findHeader_def strategy2_def strategy3_def located_def)
next
  case False
  then have s1: "strategy1 rows notFound = notFound"
    using goodLoc_located [OF strategy1_good] by simp
  show ?thesis
  proof (cases "located (strategy2_scan rows notFound)")
    case True
    then show ?thesis
      using False by (simp add: findHeader_def s1 strategy2_def strategy3_def located_def)
  next
    case False
    then have s2: "strategy2_scan rows notFound = notFound"
      using goodLoc_located [OF strategy2_scan_good] by simp
    show ?thesis
      using False \<open>\<not> located (strategy1 rows notFound)\<close>
      by (simp add: findHeader_def s1 s2 strategy2_def strategy3_def)
  qed
qed

lemma findHeader_good: "goodLoc rows (findHeader rows)"
  by (simp add: findHeader_cases strategy1_good strategy2_scan_good strategy3_scan_good)







subsection \<open>The strategies on the sample sheets\<close>

lemma gridLabel_strategy1:
  "strategy1 gridLabel notFound = \<lparr>dataStartRow = 1, headerRowIndex = 0\<rparr>"
  by (simp add: strategy1_def gridLabel_def notFound_def text_defs upt_rec)







lemma gridNone_strategy1: "strategy1 gridNone notFound = notFound"
  by (simp add: strategy1_def gridNone_def notFound_def text_defs upt_rec)

lemma gridNone_strategy2: "strategy2_scan gridNone notFound = notFound"
  by (simp add: strategy2_scan_def gridNone_def notFound_def yearCount_def text_defs upt_rec)

lemma gridNone_strategy3: "strategy3_scan gridNone notFound = notFound"
  by (simp add: strategy3_scan_def gridNone_def notFound_def hasYears_def text_defs table_defs upt_rec)

lemma gridNoYears_strategy1:
  "strategy1 gridNoYears notFound = \<lparr>dataStartRow = 1, headerRowIndex = 0\<rparr>"
  by (simp add: strategy1_def gridNoYears_def notFound_def text_defs upt_rec)

lemma gridZero_strategy1:
  "strategy1 gridZero notFound = \<lparr>dataStartRow = 1, headerRowIndex = 0\<rparr>"
  by (simp add: strategy1_def gridZero_def notFound_def text_defs upt_rec)


section \<open>Properties of the extraction\<close>

lemma findYearColumns_empty_iff:
  "findYearColumns headerRow = [] \<longleftrightarrow>
     (\<forall>j. 1 \<le> j \<and> j < length headerRow \<longrightarrow> \<not> yearPattern (cellText (headerRow ! j)))"
  by (auto simp: findYearColumns_def filter_empty_conv cellAt_def)

lemma located_findHeader_iff:
  "located (findHeader rows) \<longleftrightarrow>
     located (strategy1 rows notFound) \<or> located (strategy2_scan rows notFound) \<or>
     located (strategy3_scan rows notFound)"
  by (simp add: findHeader_cases)

lemma located_in_range:
  assumes "located (findHeader rows)"
  shows "0 \<le> headerRowIndex (findHeader rows) \<and>
         headerRowIndex (findHeader rows) < int (length rows) \<and>
         0 \<le> dataStartRow (findHeader rows)"
  using findHeader_good [of rows] assms goodLoc_located [of rows "findHeader rows"]
  by (auto simp: goodLoc_def)

lemma loadAllNAEPData_rows_cases:
  "loadAllNAEPData_rows rows =
     (if \<not> located (findHeader rows) then Inl StructureError
      else if findYearColumns (headerRowOf rows) = [] then Inl NoYearColumnsError
      else Inr (foldl (processRow (index (hd (sortYearColumns (findYearColumns (headerRowOf rows))))))
                  \<lparr>stateData = Map.empty, nationalAvg = None\<rparr>
                  (drop (nat (dataStartRow (findHeader rows))) rows)))"
proof (cases "located (findHeader rows)")
  case False
  then show ?thesis
    by (auto simp: loadAllNAEPData_rows_def located_def Let_def)
next
  case True
  then have "\<not> (dataStartRow (findHeader rows) = - 1 \<or> headerRowIndex (findHeader rows) = - 1)"
    and "\<not> (headerRowIndex (findHeader rows) < 0 \<or>
             int (length rows) \<le> headerRowIndex (findHeader rows))"
    using located_in_range [OF True] by (auto simp: located_def)
  then show ?thesis
    using True by (simp add: loadAllNAEPData_rows_def Let_def headerRowOf_def)
qed

text \<open>
  C8.  Extraction fails with the structure error exactly when none of the three
  strategies locates a header and data start, and with the no-year-columns error
  exactly when a header row is located and no column of it other than column 0 matches
  the year pattern.  No other error arises in the extraction.  In both cases the result
  is the error alone: no table is returned and nothing is put into the module cache.
\<close>

theorem loadAllNAEPData_rows_errors:
  "(loadAllNAEPData_rows rows = Inl StructureError \<longleftrightarrow>
      \<not> located (strategy1 rows notFound) \<and> \<not> located (strategy2_scan rows notFound) \<and>
      \<not> located (strategy3_scan rows notFound)) \<and>
   (loadAllNAEPData_rows rows = Inl NoYearColumnsError \<longleftrightarrow>
      located (findHeader rows) \<and>
      (\<forall>j. 1 \<le> j \<and> j < length (headerRowOf rows) \<longrightarrow>
           \<not> yearPattern (cellText (headerRowOf rows ! j)))) \<and>
   loadAllNAEPData_rows rows \<noteq> Inl TypeError \<and>
   loadAllNAEPData_rows rows \<noteq> Inl FetchError \<and>
   (loadAllNAEPData_rows rows = Inl e \<and> cache grade = None \<longrightarrow>
      loadAllNAEPData (\<lambda>filePath. Inr rows) cache grade = (Inl e, cache))"
proof (intro conjI)
  show "loadAllNAEPData_rows rows = Inl StructureError \<longleftrightarrow>
      \<not> located (strategy1 rows notFound) \<and> \<not> located (strategy2_scan rows notFound) \<and>
      \<not> located (strategy3_scan rows notFound)"
    by (simp add: loadAllNAEPData_rows_cases located_findHeader_iff)
  show "loadAllNAEPData_rows rows = Inl NoYearColumnsError \<longleftrightarrow>
      located (findHeader rows) \<and>
      (\<forall>j. 1 \<le> j \<and> j < length (headerRowOf rows) \<longrightarrow>
           \<not> yearPattern (cellText (headerRowOf rows ! j)))"
    by (simp add: loadAllNAEPData_rows_cases findYearColumns_empty_iff)
  show "loadAllNAEPData_rows rows \<noteq> Inl TypeError"
    by (simp add: loadAllNAEPData_rows_cases)
  show "loadAllNAEPData_rows rows \<noteq> Inl FetchError"
    by (simp add: loadAllNAEPData_rows_cases)
  show "loadAllNAEPData_rows rows = Inl e \<and> cache grade = None \<longrightarrow>
      loadAllNAEPData (\<lambda>filePath. Inr rows) cache grade = (Inl e, cache)"
    by (simp add: loadAllNAEPData_def)
qed

lemma gridNoYears_header: "headerRowOf gridNoYears = [CStr ''State'', CStr ''Score'']"
  by (simp add: headerRowOf_def findHeader_cases gridNoYears_strategy1 located_def)
     (simp add: gridNoYears_def)

lemma gridNoYears_no_year: "\<not> yearPattern (cellText (CStr ''Score''))"
  by (simp add: text_defs)

theorem loadAllNAEPData_rows_errors_witness:
  "loadAllNAEPData_rows gridNone = Inl StructureError \<and>
   loadAllNAEPData_rows gridNoYears = Inl NoYearColumnsError \<and>
   loadAllNAEPData (\<lambda>filePath. Inr gridNone) Map.empty 4 = (Inl StructureError, Map.empty)"
proof -
  have none: "loadAllNAEPData_rows gridNone = Inl StructureError"
    using loadAllNAEPData_rows_errors [of gridNone StructureError Map.empty 4]
    by (simp add: gridNone_strategy1 gridNone_strategy2 gridNone_strategy3)
  have located: "located (findHeader gridNoYears)"
    by (simp add: findHeader_cases gridNoYears_strategy1 located_def)
  have noYears: "loadAllNAEPData_rows gridNoYears = Inl NoYearColumnsError"
    using loadAllNAEPData_rows_errors [of gridNoYears StructureError Map.empty 4]
          located gridNoYears_no_year
    by (simp add: gridNoYears_header)
  have "loadAllNAEPData (\<lambda>filePath. Inr gridNone) Map.empty 4 = (Inl StructureError, Map.empty)"
    using loadAllNAEPData_rows_errors [of gridNone StructureError Map.empty 4] none
    by simp
  then show ?thesis
    using none noYears by simp
qed


lemma gridNone_fails: "loadAllNAEPData_rows gridNone = Inl StructureError"
  by (simp add: loadAllNAEPData_rows_cases located_findHeader_iff
        gridNone_strategy1 gridNone_strategy2 gridNone_strategy3)

text \<open>
  C3 (as amended).  When extraction of the sheet fails structurally (no header and data
  start located, or no year columns), loadAllNAEPData raises that error to its caller
  and caches nothing.  Its caller fetchNAEP, when it holds no cached entry for the
  state, catches the error and hands its own caller the all-null scores record instead
  of an error, leaving the module cache and localStorage as they were.
\<close>

theorem fetchNAEP_structure_failure:
  "loadAllNAEPData_rows rows = Inl e \<and> naepDataCache b grade = None \<and>
   loadCachedData now (localStorage b)
     (''naep_'' @ state @ ''_'' @ decimal grade @ ''_'' @ subject) = None \<longrightarrow>
     (e = StructureError \<or> e = NoYearColumnsError) \<and>
     loadAllNAEPData (\<lambda>filePath. Inr rows) (naepDataCache b) grade = (Inl e, naepDataCache b) \<and>
     fetchNAEP (\<lambda>filePath. Inr rows) now b state grade subject = (nullScores, b)"
proof
  assume a: "loadAllNAEPData_rows rows = Inl e \<and> naepDataCache b grade = None \<and>
   loadCachedData now (localStorage b)
     (''naep_'' @ state @ ''_'' @ decimal grade @ ''_'' @ subject) = None"
  have kind: "e = StructureError \<or> e = NoYearColumnsError"
    using a by (auto simp: loadAllNAEPData_rows_cases split: if_splits)
  have load: "loadAllNAEPData (\<lambda>filePath. Inr rows) (naepDataCache b) grade = (Inl e, naepDataCache b)"
    using a by (simp add: loadAllNAEPData_def)
  have "fetchNAEP (\<lambda>filePath. Inr rows) now b state grade subject = (nullScores, b)"
    using a load by (simp add: fetchNAEP_def)
  then show "(e = StructureError \<or> e = NoYearColumnsError) \<and>
     loadAllNAEPData (\<lambda>filePath. Inr rows) (naepDataCache b) grade = (Inl e, naepDataCache b) \<and>
     fetchNAEP (\<lambda>filePath. Inr rows) now b state grade subject = (nullScores, b)"
    using kind load by simp
qed

theorem fetchNAEP_structure_failure_witness:
  "loadAllNAEPData (\<lambda>filePath. Inr gridNone) Map.empty 4 = (Inl StructureError, Map.empty) \<and>
   fetchNAEP (\<lambda>filePath. Inr gridNone) 0 freshBrowser ''TX'' 4 ''READING'' =
     (nullScores, freshBrowser)"
  using fetchNAEP_structure_failure
          [of gridNone StructureError freshBrowser 4 0 "''TX''" "''READING''"]
        gridNone_fails
  by (simp add: freshBrowser_def loadCachedData_def)

text \<open>A sheet with no header: the caller of fetchNAEP receives the default record.\<close>

theorem fetchNAEP_default_counterexample:
  "loadAllNAEPData_rows gridNone = Inl StructureError \<and>
   fst (fetchNAEP (\<lambda>filePath. Inr gridNone) 0 freshBrowser ''TX'' 4 ''READING'') =
     \<lparr>Low = None, Middle = None, High = None, NationalAverage = None\<rparr>"
  by (simp add: gridNone_fails fetchNAEP_def loadAllNAEPData_def freshBrowser_def
        loadCachedData_def nullScores_def)


section \<open>The aggregate row and cell coercion\<close>

lemma national_only_from_aggregate:
  "stateNameToCode name = Some (Code ''National'') \<Longrightarrow> name = ''United States''"
  by (auto simp: table_defs split: if_splits option.splits)

lemma processRow_keys:
  "stateData (processRow col acc r) k = Some v \<Longrightarrow>
     stateData acc k = Some v \<or>
     (\<not> isAggregate (cellText (cellAt r 0)) \<and> stateNameToCode (cellText (cellAt r 0)) = Some k)"
  by (auto simp: processRow_def Let_def split: if_splits option.splits number.splits)

lemma processRow_aggregate:
  "isAggregate (cellText (cellAt r 0)) \<Longrightarrow> stateData (processRow col acc r) = stateData acc"
  by (simp add: processRow_def)

lemma foldl_processRow_keys:
  "k \<in> dom (stateData (foldl (processRow col) acc rs)) \<Longrightarrow>
     k \<in> dom (stateData acc) \<or>
     (\<exists>r\<in>set rs. \<not> isAggregate (cellText (cellAt r 0)) \<and>
                  stateNameToCode (cellText (cellAt r 0)) = Some k)"
proof (induction rs arbitrary: acc)
  case Nil
  then show ?case by simp
next
  case (Cons r rs)
  from Cons.IH [of "processRow col acc r"] Cons.prems
  consider (earlier) "k \<in> dom (stateData (processRow col acc r))"
    | (later) "\<exists>r\<in>set rs. \<not> isAggregate (cellText (cellAt r 0)) \<and>
                  stateNameToCode (cellText (cellAt r 0)) = Some k"
    by auto
  then show ?case
  proof cases
    case earlier
    then obtain v where "stateData (processRow col acc r) k = Some v"
      by auto
    from processRow_keys [OF this] show ?thesis
      by auto
  next
    case later
    then show ?thesis by auto
  qed
qed

lemma loadAllNAEPData_rows_keys:
  assumes "loadAllNAEPData_rows rows = Inr res" and "k \<in> dom (stateData res)"
  shows "\<exists>r\<in>set rows. \<not> isAggregate (cellText (cellAt r 0)) \<and>
                  stateNameToCode (cellText (cellAt r 0)) = Some k"
proof -
  let ?col = "index (hd (sortYearColumns (findYearColumns (headerRowOf rows))))"
  let ?rs = "drop (nat (dataStartRow (findHeader rows))) rows"
  have "res = foldl (processRow ?col) \<lparr>stateData = Map.empty, nationalAvg = None\<rparr> ?rs"
    using assms(1) by (simp add: loadAllNAEPData_rows_cases split: if_splits)
  then have "\<exists>r\<in>set ?rs. \<not> isAggregate (cellText (cellAt r 0)) \<and>
                  stateNameToCode (cellText (cellAt r 0)) = Some k"
    using foldl_processRow_keys [of k ?col "\<lparr>stateData = Map.empty, nationalAvg = None\<rparr>" ?rs] assms(2)
    by simp
  then show ?thesis
    by (meson in_set_dropD)
qed

lemma cleanRow_keys:
  "clean_stateData (cleanRow ys cols acc r) k = Some v \<Longrightarrow>
     clean_stateData acc k = Some v \<or>
     (\<not> cleanAggregate (cellText (cellAt r 0)) \<and> matchState (cellText (cellAt r 0)) = Some k)"
  by (auto simp: cleanRow_def Let_def split: if_splits option.splits)

lemma cleanRow_aggregate:
  "cleanAggregate (cellText (cellAt r 0)) \<Longrightarrow>
     clean_stateData (cleanRow ys cols acc r) = clean_stateData acc"
  by (simp add: cleanRow_def Let_def)

lemma foldl_cleanRow_keys:
  "k \<in> dom (clean_stateData (foldl (cleanRow ys cols) acc rs)) \<Longrightarrow>
     k \<in> dom (clean_stateData acc) \<or>
     (\<exists>r\<in>set rs. \<not> cleanAggregate (cellText (cellAt r 0)) \<and>
                  matchState (cellText (cellAt r 0)) = Some k)"
proof (induction rs arbitrary: acc)
  case Nil
  then show ?case by simp
next
  case (Cons r rs)
  from Cons.IH [of "cleanRow ys cols acc r"] Cons.prems
  consider (earlier) "k \<in> dom (clean_stateData (cleanRow ys cols acc r))"
    | (later) "\<exists>r\<in>set rs. \<not> cleanAggregate (cellText (cellAt r 0)) \<and>
                  matchState (cellText (cellAt r 0)) = Some k"
    by auto
  then show ?case
  proof cases
    case earlier
    then obtain v where "clean_stateData (cleanRow ys cols acc r) k = Some v"
      by auto
    from cleanRow_keys [OF this] show ?thesis
      by auto
  next
    case later
    then show ?thesis by auto
  qed
qed

lemma parseNAEPFile_keys:
  assumes "k \<in> dom (clean_stateData (snd (parseNAEPFile rows)))"
  shows "\<exists>r\<in>set rows. \<not> cleanAggregate (cellText (cellAt r 0)) \<and>
                  matchState (cellText (cellAt r 0)) = Some k"
proof -
  let ?h = "findCleanHeader rows"
  let ?rs = "drop (nat (dataStartIdx ?h)) rows"
  have "\<exists>r\<in>set ?rs. \<not> cleanAggregate (cellText (cellAt r 0)) \<and>
                  matchState (cellText (cellAt r 0)) = Some k"
    using foldl_cleanRow_keys [of k "sort (yearList ?h)" "yearColumns ?h"
            "\<lparr>clean_stateData = Map.empty, clean_nationalAvgByYear = Map.empty\<rparr>" ?rs] assms
    by (simp add: parseNAEPFile_def Let_def)
  then show ?thesis
    by (meson in_set_dropD)
qed

text \<open>
  C7.  In both loaders a row matching the aggregate pattern (a name containing "United
  States") leaves the per-state records untouched: it can only set the national value.
  After extraction every key of the state records comes from a row that does not match
  the aggregate pattern, and the code National of the aggregate row is not a key.
\<close>

theorem aggregate_row_excluded:
  "(isAggregate (cellText (cellAt r 0)) \<longrightarrow>
      stateData (processRow col acc r) = stateData acc) \<and>
   (loadAllNAEPData_rows rows = Inr res \<longrightarrow>
      Code ''National'' \<notin> dom (stateData res) \<and>
      (\<forall>k\<in>dom (stateData res).
         \<exists>r'\<in>set rows. \<not> isAggregate (cellText (cellAt r' 0)) \<and>
                       stateNameToCode (cellText (cellAt r' 0)) = Some k)) \<and>
   (cleanAggregate (cellText (cellAt r 0)) \<longrightarrow>
      clean_stateData (cleanRow ys cols cacc r) = clean_stateData cacc) \<and>
   (\<forall>k\<in>dom (clean_stateData (snd (parseNAEPFile rows))).
      \<exists>r'\<in>set rows. \<not> cleanAggregate (cellText (cellAt r' 0)) \<and>
                    matchState (cellText (cellAt r' 0)) = Some k)"
proof (intro conjI impI ballI)
  show "stateData (processRow col acc r) = stateData acc" if "isAggregate (cellText (cellAt r 0))"
    using that by (rule processRow_aggregate)
  show "Code ''National'' \<notin> dom (stateData res)" if ok: "loadAllNAEPData_rows rows = Inr res"
  proof
    assume "Code ''National'' \<in> dom (stateData res)"
    from loadAllNAEPData_rows_keys [OF ok this]
    obtain r' where "\<not> isAggregate (cellText (cellAt r' 0))"
      and "stateNameToCode (cellText (cellAt r' 0)) = Some (Code ''National'')"
      by blast
    then show False
      using national_only_from_aggregate [of "cellText (cellAt r' 0)"]
      by (simp add: isAggregate_def)
  qed
  show "\<exists>r'\<in>set rows. \<not> isAggregate (cellText (cellAt r' 0)) \<and>
                       stateNameToCode (cellText (cellAt r' 0)) = Some k"
    if "loadAllNAEPData_rows rows = Inr res" "k \<in> dom (stateData res)" for k
    using that by (rule loadAllNAEPData_rows_keys)
  show "clean_stateData (cleanRow ys cols cacc r) = clean_stateData cacc"
    if "cleanAggregate (cellText (cellAt r 0))"
    using that by (rule cleanRow_aggregate)
  show "\<exists>r'\<in>set rows. \<not> cleanAggregate (cellText (cellAt r' 0)) \<and>
                    matchState (cellText (cellAt r' 0)) = Some k"
    if "k \<in> dom (clean_stateData (snd (parseNAEPFile rows)))" for k
    using that by (rule parseNAEPFile_keys)
qed


lemmas score_defs =
  cellScore_def nationalScore_def scoreMatch_def parseFloat_def parseInt_def digitValue_def
  orScore_def sesGap_def

lemma usRow_aggregate:
  "isAggregate (cellText (cellAt usRow 0)) \<and> cleanAggregate (cellText (cellAt usRow 0))"
  by (simp add: usRow_def isAggregate_def cleanAggregate_def collapseSpaces_def text_defs)

lemma gridLabel_header:
  "findHeader gridLabel = \<lparr>dataStartRow = 1, headerRowIndex = 0\<rparr> \<and>
   headerRowOf gridLabel = [CStr ''State or jurisdiction'', CStr ''2019'', CStr ''2022'']"
  by (simp add: headerRowOf_def findHeader_cases gridLabel_strategy1 located_def)
     (simp add: gridLabel_def)

lemma gridLabel_columns:
  "findYearColumns [CStr ''State or jurisdiction'', CStr ''2019'', CStr ''2022''] =
     [\<lparr>index = 1, year = ''2019''\<rparr>, \<lparr>index = 2, year = ''2022''\<rparr>]"
  by (simp add: findYearColumns_def text_defs upt_rec)

lemma gridLabel_target:
  "findYearColumns [CStr ''State or jurisdiction'', CStr ''2019'', CStr ''2022''] \<noteq> [] \<and>
   index (hd (sortYearColumns
     (findYearColumns [CStr ''State or jurisdiction'', CStr ''2019'', CStr ''2022'']))) = 2"
  by (simp add: gridLabel_columns sortYearColumns_def parseInt_def digitValue_def isDigit_def)

lemma gridLabel_rows:
  "foldl (processRow 2) emptyResult
     [usRow, [CStr ''California'', CNum (Fin 215), CNum (Fin 219)]] = labelResult"
  by (simp add: processRow_def usRow_aggregate)
     (simp add: usRow_def emptyResult_def labelResult_def isAggregate_def score_defs text_defs table_defs)

lemma gridLabel_result: "loadAllNAEPData_rows gridLabel = Inr labelResult"
proof -
  have "drop 1 gridLabel = [usRow, [CStr ''California'', CNum (Fin 215), CNum (Fin 219)]]"
    by (simp add: gridLabel_def usRow_def)
  moreover have "located (findHeader gridLabel)"
    by (simp add: gridLabel_header located_def)
  ultimately show ?thesis
    using gridLabel_rows
    by (simp add: loadAllNAEPData_rows_cases gridLabel_header gridLabel_target emptyResult_def)
qed

text \<open>The cleaning script on a sheet whose Texas row holds the cells "0" and "214.5*".\<close>

lemma gridUnits_header:
  "headerRowIdx (findCleanHeader gridUnits) = 0 \<and>
   dataStartIdx (findCleanHeader gridUnits) = 2 \<and>
   yearList (findCleanHeader gridUnits) = [2019, 2022] \<and>
   yearColumns (findCleanHeader gridUnits) 2019 = Some 1 \<and>
   yearColumns (findCleanHeader gridUnits) 2022 = Some 2"
  by (simp add: findCleanHeader_def gridUnits_def parseYearCell_def yearPrefix_def parseInt_def
        digitValue_def text_defs upt_rec)

lemma cleanRow_usRow:
  assumes "cols 2019 = Some 1" and "cols 2022 = Some 2"
  shows "cleanRow [2019, 2022] cols emptyCleaned usRow =
     \<lparr>clean_stateData = Map.empty, clean_nationalAvgByYear = [2019 \<mapsto> 220, 2022 \<mapsto> 222]\<rparr>"
  using assms
  by (simp add: cleanRow_def Let_def cleanAggregate_def collapseSpaces_def usRow_def
        emptyCleaned_def readYears_def List.map_filter_simps cleanScore_def cellScore_def
        text_defs)

lemma cleanRow_texas:
  assumes "cols 2019 = Some 1" and "cols 2022 = Some 2"
  shows "cleanRow [2019, 2022] cols acc [CStr ''Texas'', CStr ''0'', CStr ''214.5*''] =
     acc\<lparr>clean_stateData := (clean_stateData acc)(Code ''TX'' \<mapsto> [2022 \<mapsto> 429 / 2])\<rparr>"
  using assms
  by (simp add: cleanRow_def Let_def cleanAggregate_def collapseSpaces_def matchState_def
        readYears_def List.map_filter_simps cleanScore_def score_defs lookupName_def uspsNames_def
        text_defs)

lemma parseNAEPFile_gridUnits:
  "parseNAEPFile gridUnits =
     ([2019, 2022],
      \<lparr>clean_stateData = [Code ''TX'' \<mapsto> [2022 \<mapsto> 429 / 2]],
       clean_nationalAvgByYear = [2019 \<mapsto> 220, 2022 \<mapsto> 222]\<rparr>)"
proof -
  let ?cols = "yearColumns (findCleanHeader gridUnits)"
  have cols: "?cols 2019 = Some 1" "?cols 2022 = Some 2"
    using gridUnits_header by simp_all
  have rows: "drop 2 gridUnits = [usRow, [CStr ''Texas'', CStr ''0'', CStr ''214.5*'']]"
    by (simp add: gridUnits_def usRow_def)
  have "foldl (cleanRow [2019, 2022] ?cols) emptyCleaned (drop 2 gridUnits) =
      \<lparr>clean_stateData = [Code ''TX'' \<mapsto> [2022 \<mapsto> 429 / 2]],
       clean_nationalAvgByYear = [2019 \<mapsto> 220, 2022 \<mapsto> 222]\<rparr>"
    by (simp add: rows cleanRow_usRow [OF cols] cleanRow_texas [OF cols])
  then show ?thesis
    using gridUnits_header by (simp add: parseNAEPFile_def emptyCleaned_def)
qed



theorem aggregate_row_excluded_witness:
  "stateData (processRow 2 emptyResult usRow) = Map.empty \<and>
   Code ''National'' \<notin> dom (stateData labelResult) \<and>
   (\<exists>r'\<in>set gridLabel. \<not> isAggregate (cellText (cellAt r' 0)) \<and>
       stateNameToCode (cellText (cellAt r' 0)) = Some (Code ''CA'')) \<and>
   clean_stateData (cleanRow [2019, 2022] [2019 \<mapsto> 1, 2022 \<mapsto> 2] emptyCleaned usRow) = Map.empty \<and>
   (\<exists>r'\<in>set gridUnits. \<not> cleanAggregate (cellText (cellAt r' 0)) \<and>
       matchState (cellText (cellAt r' 0)) = Some (Code ''TX''))"
proof -
  have key: "Code ''CA'' \<in> dom (stateData labelResult)"
    by (simp add: labelResult_def)
  have texas: "Code ''TX'' \<in> dom (clean_stateData (snd (parseNAEPFile gridUnits)))"
    by (simp add: parseNAEPFile_gridUnits)
  have "\<exists>r'\<in>set gridUnits. \<not> cleanAggregate (cellText (cellAt r' 0)) \<and>
       matchState (cellText (cellAt r' 0)) = Some (Code ''TX'')"
    using aggregate_row_excluded [where rows = gridUnits] texas by blast
  then show ?thesis
    using aggregate_row_excluded
            [of usRow 2 emptyResult gridLabel labelResult "[2019, 2022]"
                "[2019 \<mapsto> 1, 2022 \<mapsto> 2]" emptyCleaned]
          usRow_aggregate gridLabel_result key
    by (auto simp: emptyResult_def emptyCleaned_def)
qed

lemma gridZero_header:
  "findHeader gridZero = \<lparr>dataStartRow = 1, headerRowIndex = 0\<rparr> \<and>
   headerRowOf gridZero = [CStr ''State or jurisdiction'', CStr ''2022'']"
  by (simp add: headerRowOf_def findHeader_cases gridZero_strategy1 located_def)
     (simp add: gridZero_def)

lemma gridZero_columns:
  "findYearColumns [CStr ''State or jurisdiction'', CStr ''2022''] = [\<lparr>index = 1, year = ''2022''\<rparr>]"
  by (simp add: findYearColumns_def text_defs upt_rec)

lemma gridZero_target:
  "findYearColumns [CStr ''State or jurisdiction'', CStr ''2022''] \<noteq> [] \<and>
   index (hd (sortYearColumns (findYearColumns [CStr ''State or jurisdiction'', CStr ''2022'']))) = 1"
  by (simp add: gridZero_columns sortYearColumns_def)

lemma gridZero_rows:
  "foldl (processRow 1) emptyResult [[CStr ''Texas'', CStr ''0'']] = zeroResult"
  by (simp add: processRow_def emptyResult_def zeroResult_def isAggregate_def score_defs
        text_defs table_defs)

text \<open>The coercion rule of the cleaning script, and of loadAllNAEPData, for every cell.\<close>

lemma cleanScore_cases:
  "cleanScore (CNum (Fin q)) = (if 0 < q then Some q else None) \<and>
   cleanScore (CNum NaN) = None \<and>
   cleanScore CNull = None \<and>
   cleanScore (CBool b) = None \<and>
   cleanScore (CStr s) =
     (case scoreMatch s of
        None \<Rightarrow> None
      | Some m \<Rightarrow> if 0 < parseFloat m then Some (parseFloat m) else None)"
  by (simp add: cleanScore_def cellScore_def split: option.splits)

lemma cellScore_cases:
  "cellScore (CNum n) = Some n \<and>
   cellScore CNull = None \<and>
   cellScore (CBool b) = None \<and>
   cellScore (CStr s) = map_option (\<lambda>m. Fin (parseFloat m)) (scoreMatch s)"
  by (simp add: cellScore_def split: option.splits)

text \<open>
  C2.  A string cell "0" in the year column: loadAllNAEPData records a score of 0 for
  the state (Low -18, Middle 0, High 18), where the specification has nothing recorded
  for a parsed value that is not positive; the cleaning
  script, which tests \<open>score > 0\<close>, records nothing for the same cell.  For "-5" and
  "N/A" neither loader records a value.
\<close>

theorem loadAllNAEPData_rows_keeps_zero:
  "loadAllNAEPData_rows gridZero = Inr zeroResult \<and>
   stateData zeroResult (Code ''TX'') =
     Some \<lparr>Low = Some (Fin (- 18)), Middle = Some (Fin 0), High = Some (Fin 18),
           NationalAverage = Some (Fin 0)\<rparr> \<and>
   cellScore (CStr ''0'') = Some (Fin 0) \<and>
   cleanScore (CStr ''0'') = None \<and>
   cleanScore (CStr ''-5'') = None \<and>
   cellScore (CStr ''-5'') = None \<and>
   cellScore (CStr ''N/A'') = None \<and>
   cleanScore (CStr ''214.5*'') = Some (429 / 2)"
proof -
  have "drop 1 gridZero = [[CStr ''Texas'', CStr ''0'']]"
    by (simp add: gridZero_def)
  moreover have "located (findHeader gridZero)"
    by (simp add: gridZero_header located_def)
  ultimately have "loadAllNAEPData_rows gridZero = Inr zeroResult"
    using gridZero_rows
    by (simp add: loadAllNAEPData_rows_cases gridZero_header gridZero_target emptyResult_def)
  moreover have "stateData zeroResult (Code ''TX'') =
     Some \<lparr>Low = Some (Fin (- 18)), Middle = Some (Fin 0), High = Some (Fin 18),
           NationalAverage = Some (Fin 0)\<rparr>"
    by (simp add: zeroResult_def)
  moreover have "cellScore (CStr ''0'') = Some (Fin 0) \<and> cleanScore (CStr ''0'') = None"
    by (simp add: cleanScore_def score_defs isDigit_def)
  moreover have "cleanScore (CStr ''-5'') = None \<and> cellScore (CStr ''-5'') = None \<and>
      cellScore (CStr ''N/A'') = None"
    by (simp add: cleanScore_def score_defs isDigit_def)
  moreover have "cleanScore (CStr ''214.5*'') = Some (429 / 2)"
    by (simp add: cleanScore_def score_defs isDigit_def)
  ultimately show ?thesis
    by simp
qed

text \<open>
  The cleaning script has no failure branch: on a sheet without a header row it finds no
  years and returns an empty table.
\<close>

lemma parseNAEPFile_no_header: "parseNAEPFile gridNone = ([], emptyCleaned)"
  by (simp add: parseNAEPFile_def findCleanHeader_def gridNone_def emptyCleaned_def cleanRow_def
        cleanAggregate_def collapseSpaces_def matchState_def readYears_def
        List.map_filter_simps lookupName_def uspsNames_def objectPrototypeNames_def text_defs
        upt_rec)

section \<open>The SES adjustment\<close>

text \<open>What loadAllNAEPData stores for a state row whose score cell coerces to a number.\<close>

lemma processRow_stores:
  assumes "\<not> isAggregate (cellText (cellAt r 0))"
    and "stateNameToCode (cellText (cellAt r 0)) = Some k"
    and "cellScore (cellAt r col) = Some (Fin s)"
  shows "stateData (processRow col acc r) k =
     Some \<lparr>Low = Some (Fin (s - 18)), Middle = Some (Fin s), High = Some (Fin (s + 18)),
           NationalAverage = Some (orScore (nationalAvg acc) s)\<rparr>"
  using assms by (simp add: processRow_def sesGap_def)

text \<open>
  getStateScore on any loaded data: a score other than 0 is adjusted, and a score that is
  missing or 0 gives null (the test is \<open>!score\<close>).
\<close>

lemma getStateScore_nonzero:
  assumes "latestScore d st g = Some v" and "v \<noteq> 0"
  shows "getStateScore d st g ''Low'' = Some (v - 18)"
    and "getStateScore d st g ''High'' = Some (v + 18)"
    and "getStateScore d st g ''Middle'' = Some v"
  using assms by (simp_all add: getStateScore_def)

lemma getStateScore_falsy:
  assumes "latestScore d st g = None \<or> latestScore d st g = Some 0"
  shows "getStateScore d st g ses = None"
  using assms by (auto simp: getStateScore_def)

text \<open>
  The cleaning script records a score only if it is greater than 0, so every score in
  naep_cleaned.json is positive, and the test \<open>!score\<close> rejects only a missing one.
\<close>

lemma in_set_map_filter:
  "b \<in> set (List.map_filter f xs) \<longleftrightarrow> (\<exists>a\<in>set xs. f a = Some b)"
  by (induction xs) (auto simp: List.map_filter_simps split: option.splits)

lemma cleanScore_positive: "cleanScore c = Some v \<Longrightarrow> 0 < v"
  by (auto simp: cleanScore_def split: option.splits number.splits if_splits)

lemma readYears_positive: "(y, v) \<in> set (readYears ys cols r) \<Longrightarrow> 0 < v"
  by (auto simp: readYears_def in_set_map_filter cleanScore_positive split: option.splits)

lemma cleanRow_positive:
  assumes "\<And>k m y v. clean_stateData acc k = Some m \<Longrightarrow> m y = Some v \<Longrightarrow> 0 < v"
    and "clean_stateData (cleanRow ys cols acc r) k = Some m" and "m y = Some v"
  shows "0 < v"
proof (cases "clean_stateData (cleanRow ys cols acc r) k = clean_stateData acc k")
  case True
  with assms(2) have "clean_stateData acc k = Some m" by simp
  then show ?thesis using assms(1,3) by blast
next
  case False
  then have "m = map_of (readYears ys cols r)"
    using assms(2) by (auto simp: cleanRow_def Let_def split: if_splits option.splits)
  then have "(y, v) \<in> set (readYears ys cols r)"
    using assms(3) by (simp add: map_of_SomeD)
  then show ?thesis by (rule readYears_positive)
qed

lemma foldl_cleanRow_positive:
  assumes "\<And>k m y v. clean_stateData acc k = Some m \<Longrightarrow> m y = Some v \<Longrightarrow> 0 < v"
    and "clean_stateData (foldl (cleanRow ys cols) acc rows) k = Some m" and "m y = Some v"
  shows "0 < v"
  using assms
proof (induction rows arbitrary: acc)
  case Nil
  then show ?case by simp
next
  case (Cons r rows)
  have "\<And>k m y v. clean_stateData (cleanRow ys cols acc r) k = Some m \<Longrightarrow> m y = Some v \<Longrightarrow> 0 < v"
    using cleanRow_positive [of acc] Cons.prems(1) by blast
  then show ?case
    using Cons.IH [of "cleanRow ys cols acc r"] Cons.prems(2,3) by simp
qed

lemma parseNAEPFile_scores_positive:
  assumes "clean_stateData (snd (parseNAEPFile rows)) k = Some m" and "m y = Some v"
  shows "0 < v"
proof -
  let ?h = "findCleanHeader rows"
  have "clean_stateData (foldl (cleanRow (sort (yearList ?h)) (yearColumns ?h))
          \<lparr>clean_stateData = Map.empty, clean_nationalAvgByYear = Map.empty\<rparr>
          (drop (nat (dataStartIdx ?h)) rows)) k = Some m"
    using assms(1) by (simp add: parseNAEPFile_def Let_def)
  then show ?thesis
    using assms(2) by (rule foldl_cleanRow_positive [rotated]) simp
qed

lemma yearObject_SomeD: "yearObject ys m key = Some v \<Longrightarrow> \<exists>y. m y = Some v"
  by (auto simp: yearObject_def in_set_map_filter dest!: map_of_SomeD)

lemma cleanedGrade_scores_positive:
  assumes "states (cleanedGrade rows) = Some sts" and "sts st = Some stateScores"
    and "stateScores key = Some v"
  shows "0 < v"
proof -
  obtain m where "clean_stateData (snd (parseNAEPFile rows)) (Code st) = Some m"
    and "stateScores = yearObject (fst (parseNAEPFile rows)) m"
    using assms(1,2) by (auto simp: cleanedGrade_def split_def Let_def)
  then show ?thesis
    using assms(3) yearObject_SomeD parseNAEPFile_scores_positive by blast
qed

lemma cleanedJson_latestScore_positive:
  assumes "latestScore (cleanedJson rows4 rows8) st g = Some v"
  shows "0 < v"
proof -
  obtain gd sts stateScores where "gd = cleanedGrade rows4 \<or> gd = cleanedGrade rows8"
    and "states gd = Some sts" and "sts st = Some stateScores"
    and "stateScores (latestYearKey (years gd)) = Some v"
    using assms by (auto simp: latestScore_def cleanedJson_def split: option.splits if_splits)
  then show ?thesis
    using cleanedGrade_scores_positive by blast
qed

text \<open>
  C5.  On the file written by the cleaning script, getStateScore with gap 18 returns the
  base score - 18 for Low, the base score + 18 for High and the base score unchanged for
  Middle (and for any other category); when the base score is missing the result is
  null.  loadAllNAEPData stores, for every numeric score of a state row, Low = score - 18,
  Middle = score and High = score + 18.
\<close>

theorem getStateScore_adjust:
  "(latestScore (cleanedJson rows4 rows8) st g = Some v \<longrightarrow>
      getStateScore (cleanedJson rows4 rows8) st g ''Low'' = Some (v - 18) \<and>
      getStateScore (cleanedJson rows4 rows8) st g ''High'' = Some (v + 18) \<and>
      getStateScore (cleanedJson rows4 rows8) st g ''Middle'' = Some v) \<and>
   (latestScore (cleanedJson rows4 rows8) st g = None \<longrightarrow>
      getStateScore (cleanedJson rows4 rows8) st g ses = None) \<and>
   (\<not> isAggregate (cellText (cellAt r 0)) \<and>
    stateNameToCode (cellText (cellAt r 0)) = Some k \<and>
    cellScore (cellAt r col) = Some (Fin s) \<longrightarrow>
      stateData (processRow col acc r) k =
        Some \<lparr>Low = Some (Fin (s - 18)), Middle = Some (Fin s), High = Some (Fin (s + 18)),
              NationalAverage = Some (orScore (nationalAvg acc) s)\<rparr>)"
proof (intro conjI impI)
  assume score: "latestScore (cleanedJson rows4 rows8) st g = Some v"
  then have "v \<noteq> 0"
    using cleanedJson_latestScore_positive by fastforce
  with score show "getStateScore (cleanedJson rows4 rows8) st g ''Low'' = Some (v - 18)"
    and "getStateScore (cleanedJson rows4 rows8) st g ''High'' = Some (v + 18)"
    and "getStateScore (cleanedJson rows4 rows8) st g ''Middle'' = Some v"
    by (simp_all add: getStateScore_nonzero)
next
  assume "latestScore (cleanedJson rows4 rows8) st g = None"
  then show "getStateScore (cleanedJson rows4 rows8) st g ses = None"
    by (simp add: getStateScore_falsy)
next
  assume "\<not> isAggregate (cellText (cellAt r 0)) \<and>
    stateNameToCode (cellText (cellAt r 0)) = Some k \<and>
    cellScore (cellAt r col) = Some (Fin s)"
  then show "stateData (processRow col acc r) k =
        Some \<lparr>Low = Some (Fin (s - 18)), Middle = Some (Fin s), High = Some (Fin (s + 18)),
              NationalAverage = Some (orScore (nationalAvg acc) s)\<rparr>"
    by (simp add: processRow_stores)
qed

text \<open>The file built from two sample sheets: Texas has 250 in grade 4 and 214.5 in grade 8.\<close>

lemma gridTexas_header:
  "dataStartIdx (findCleanHeader gridTexas) = 2 \<and>
   yearList (findCleanHeader gridTexas) = [2019, 2022] \<and>
   yearColumns (findCleanHeader gridTexas) 2019 = Some 1 \<and>
   yearColumns (findCleanHeader gridTexas) 2022 = Some 2"
  by (simp add: findCleanHeader_def gridTexas_def parseYearCell_def yearPrefix_def parseInt_def
        digitValue_def text_defs upt_rec)

lemma cleanRow_texas_numbers:
  assumes "cols 2019 = Some 1" and "cols 2022 = Some 2"
  shows "cleanRow [2019, 2022] cols acc [CStr ''Texas'', CNum (Fin 0), CNum (Fin 250)] =
     acc\<lparr>clean_stateData := (clean_stateData acc)(Code ''TX'' \<mapsto> [2022 \<mapsto> 250])\<rparr>"
  using assms
  by (simp add: cleanRow_def Let_def cleanAggregate_def collapseSpaces_def matchState_def
        readYears_def List.map_filter_simps cleanScore_def score_defs lookupName_def uspsNames_def
        text_defs)

lemma parseNAEPFile_gridTexas:
  "parseNAEPFile gridTexas =
     ([2019, 2022],
      \<lparr>clean_stateData = [Code ''TX'' \<mapsto> [2022 \<mapsto> 250]], clean_nationalAvgByYear = Map.empty\<rparr>)"
proof -
  let ?cols = "yearColumns (findCleanHeader gridTexas)"
  have cols: "?cols 2019 = Some 1" "?cols 2022 = Some 2"
    using gridTexas_header by simp_all
  have rows: "drop 2 gridTexas = [[CStr ''Texas'', CNum (Fin 0), CNum (Fin 250)]]"
    by (simp add: gridTexas_def)
  have "foldl (cleanRow [2019, 2022] ?cols) emptyCleaned (drop 2 gridTexas) =
      \<lparr>clean_stateData = [Code ''TX'' \<mapsto> [2022 \<mapsto> 250]], clean_nationalAvgByYear = Map.empty\<rparr>"
    by (simp add: rows cleanRow_texas_numbers [OF cols] emptyCleaned_def)
  then show ?thesis
    using gridTexas_header by (simp add: parseNAEPFile_def emptyCleaned_def)
qed

lemma cleanedJson_latestScore_examples:
  "latestScore (cleanedJson gridTexas gridUnits) ''TX'' 4 = Some 250 \<and>
   latestScore (cleanedJson gridTexas gridUnits) ''TX'' 8 = Some (429 / 2) \<and>
   latestScore (cleanedJson gridTexas gridUnits) ''CA'' 4 = None \<and>
   latestScore (cleanedJson gridTexas gridUnits) ''TX'' 12 = None \<and>
   latestScore (cleanedJson gridUnits gridTexas) ''toString'' 4 = None"
  by (simp add: latestScore_def cleanedJson_def cleanedGrade_def parseNAEPFile_gridUnits
        parseNAEPFile_gridTexas yearObject_def List.map_filter_simps latestYearKey_def
        digitChar_def decimal.simps)

lemma californiaRow_facts:
  "\<not> isAggregate (cellText (cellAt californiaRow 0)) \<and>
   stateNameToCode (cellText (cellAt californiaRow 0)) = Some (Code ''CA'') \<and>
   cellScore (cellAt californiaRow 2) = Some (Fin 219)"
  by (simp add: californiaRow_def isAggregate_def cellScore_def text_defs table_defs)

theorem getStateScore_adjust_witness:
  "getStateScore (cleanedJson gridTexas gridUnits) ''TX'' 4 ''Low'' = Some 232 \<and>
   getStateScore (cleanedJson gridTexas gridUnits) ''TX'' 4 ''High'' = Some 268 \<and>
   getStateScore (cleanedJson gridTexas gridUnits) ''TX'' 4 ''Middle'' = Some 250 \<and>
   getStateScore (cleanedJson gridTexas gridUnits) ''TX'' 8 ''Low'' = Some (393 / 2) \<and>
   getStateScore (cleanedJson gridTexas gridUnits) ''CA'' 4 ''Low'' = None \<and>
   stateData (processRow 2 emptyResult californiaRow) (Code ''CA'') =
     Some \<lparr>Low = Some (Fin 201), Middle = Some (Fin 219), High = Some (Fin 237),
           NationalAverage = Some (Fin 219)\<rparr>"
  using getStateScore_adjust
          [where ?rows4.0 = gridTexas and ?rows8.0 = gridUnits and st = "''TX''" and g = 4
             and v = 250
             and r = californiaRow and k = "Code ''CA''" and col = 2 and s = 219
             and acc = emptyResult]
        getStateScore_adjust
          [where ?rows4.0 = gridTexas and ?rows8.0 = gridUnits and st = "''TX''" and g = 8
             and v = "429 / 2"]
        getStateScore_adjust
          [where ?rows4.0 = gridTexas and ?rows8.0 = gridUnits and st = "''CA''" and g = 4
             and ses = "''Low''"]
        cleanedJson_latestScore_examples californiaRow_facts
  by (simp add: emptyResult_def orScore_def)

end
